theory Spec2Isabelle
  imports Complex_Main "HOL-Library.Log_Nat"
begin

section \<open>The BIOM table validator (biom/commands/table\_validator.py)\<close>

text \<open>
  The validator is Python 2 code (it names the type \<^verbatim>\<open>unicode\<close>). A flat document is what
  \<^verbatim>\<open>json.load\<close> returns in Python 2: \<^verbatim>\<open>None\<close>, \<^verbatim>\<open>bool\<close>, \<^verbatim>\<open>int\<close>, \<^verbatim>\<open>long\<close> (an integer
  literal beyond the machine range), \<^verbatim>\<open>float\<close>, \<^verbatim>\<open>unicode\<close>, \<^verbatim>\<open>list\<close> and \<^verbatim>\<open>dict\<close> with
  \<^verbatim>\<open>unicode\<close> keys. Text is a \<^typ>\<open>string\<close> whose characters stand for the code points
  below 256. A dict is an association list in the order in which Python enumerates its
  keys (the keys of a dict are distinct). Every exception the code can raise is a value
  \<open>Inl e\<close> of the result.
\<close>

subsection \<open>Values\<close>

datatype pyfloat = Fin rat | PosInf | NegInf | NaN

datatype pyval =
    PNone
  | PBool bool
  | PInt int
  | PLong int
  | PFloat pyfloat
  | PUnicode string
  | PList "pyval list"
  | PDict "(string \<times> pyval) list"

type_synonym pydict = "(string \<times> pyval) list"

datatype exc =
  KeyError | TypeError | ValueError | AttributeError | IndexError | UnicodeEncodeError

text \<open>The classes named by \<^verbatim>\<open>ElementTypes\<close>, and \<^verbatim>\<open>isinstance\<close> against them. \<^verbatim>\<open>bool\<close> is
  a subclass of \<^verbatim>\<open>int\<close>; \<^verbatim>\<open>long\<close> is not; no value of a parsed document is a byte
  string (\<^verbatim>\<open>str\<close>).\<close>

datatype pytype = TInt | TStr | TFloat | TUnicode

fun isinstance :: "pyval \<Rightarrow> pytype \<Rightarrow> bool" where
  "isinstance (PInt n) TInt = True"
| "isinstance (PBool b) TInt = True"
| "isinstance (PFloat f) TFloat = True"
| "isinstance (PUnicode s) TUnicode = True"
| "isinstance v t = False"

subsection \<open>Numbers\<close>

text \<open>Python compares an integer with a float exactly; \<^verbatim>\<open>nan\<close> is unequal to everything
  and unordered.\<close>

fun as_number :: "pyval \<Rightarrow> pyfloat option" where
  "as_number (PBool b) = Some (Fin (if b then 1 else 0))"
| "as_number (PInt n) = Some (Fin (of_int n))"
| "as_number (PLong n) = Some (Fin (of_int n))"
| "as_number (PFloat f) = Some f"
| "as_number v = None"

fun fl_less :: "pyfloat \<Rightarrow> pyfloat \<Rightarrow> bool" where
  "fl_less (Fin a) (Fin b) = (a < b)"
| "fl_less (Fin a) PosInf = True"
| "fl_less NegInf (Fin b) = True"
| "fl_less NegInf PosInf = True"
| "fl_less x y = False"

fun fl_eq :: "pyfloat \<Rightarrow> pyfloat \<Rightarrow> bool" where
  "fl_eq (Fin a) (Fin b) = (a = b)"
| "fl_eq PosInf PosInf = True"
| "fl_eq NegInf NegInf = True"
| "fl_eq x y = False"

text \<open>\<^verbatim>\<open>n != v\<close> for an integer \<open>n\<close> (a length): a value that is not a number is unequal to
  it.\<close>

definition ne_int :: "int \<Rightarrow> pyval \<Rightarrow> bool" where
  "ne_int n v = (case as_number v of Some f \<Rightarrow> \<not> fl_eq (Fin (of_int n)) f | None \<Rightarrow> True)"

text \<open>\<^verbatim>\<open>x > v\<close> for an integer \<open>x\<close>. Python 2 orders values of different kinds: \<^verbatim>\<open>None\<close>
  is below every number, every other value that is not a number is above.\<close>

definition int_gt :: "int \<Rightarrow> pyval \<Rightarrow> bool" where
  "int_gt x v = (case v of PNone \<Rightarrow> True
     | _ \<Rightarrow> (case as_number v of Some f \<Rightarrow> fl_less f (Fin (of_int x)) | None \<Rightarrow> False))"

text \<open>The integer that an \<^verbatim>\<open>int\<close>-typed value denotes (\<^verbatim>\<open>True\<close> is 1). The validator reads
  it only after \<^verbatim>\<open>_is_int\<close> has passed.\<close>

fun py_int :: "pyval \<Rightarrow> int" where
  "py_int (PInt n) = n"
| "py_int (PBool b) = (if b then 1 else 0)"
| "py_int v = 0"

text \<open>Rounding of a rational to the nearest IEEE double (ties to even), for the one
  float operation of the validator, \<^verbatim>\<open>n -= 1\<close>.\<close>

definition pow2 :: "int \<Rightarrow> rat" where
  "pow2 e = (if 0 \<le> e then 2 ^ nat e else 1 / 2 ^ nat (- e))"

definition ilog2 :: "rat \<Rightarrow> int" where
  "ilog2 q = (let (a, b) = quotient_of q;
                  d = int (floorlog 2 (nat a)) - int (floorlog 2 (nat b))
              in if pow2 d \<le> q then d else d - 1)"

definition round_half_even :: "rat \<Rightarrow> int" where
  "round_half_even x = (let f = \<lfloor>x\<rfloor>; r = x - of_int f
     in if r < 1 / 2 then f else if 1 / 2 < r then f + 1 else if even f then f else f + 1)"

definition to_double :: "rat \<Rightarrow> pyfloat" where
  "to_double q = (if q = 0 then Fin 0 else
     let e = max (ilog2 \<bar>q\<bar>) (- 1022) - 52;
         v = of_int (round_half_even (q / pow2 e)) * pow2 e
     in if pow2 1024 \<le> \<bar>v\<bar> then (if 0 < q then PosInf else NegInf) else Fin v)"

fun fl_sub1 :: "pyfloat \<Rightarrow> pyfloat" where
  "fl_sub1 (Fin q) = to_double (q - 1)"
| "fl_sub1 f = f"

text \<open>\<^verbatim>\<open>n -= 1\<close>.\<close>

fun py_sub1 :: "pyval \<Rightarrow> exc + pyval" where
  "py_sub1 (PBool b) = Inr (PInt ((if b then 1 else 0) - 1))"
| "py_sub1 (PInt n) = Inr (PInt (n - 1))"
| "py_sub1 (PLong n) = Inr (PLong (n - 1))"
| "py_sub1 (PFloat f) = Inr (PFloat (fl_sub1 f))"
| "py_sub1 v = Inl TypeError"

subsection \<open>Text and containers\<close>

definition lower_char :: "char \<Rightarrow> char" where
  "lower_char c = (let n = (of_char c :: nat)
     in if (65 \<le> n \<and> n \<le> 90) \<or> (192 \<le> n \<and> n \<le> 222 \<and> n \<noteq> 215)
        then char_of (n + 32) else c)"

definition lower :: "string \<Rightarrow> string" where
  "lower s = map lower_char s"

text \<open>\<^verbatim>\<open>value.lower()\<close>: only text has the method.\<close>

fun py_lower :: "pyval \<Rightarrow> exc + string" where
  "py_lower (PUnicode s) = Inr (lower s)"
| "py_lower v = Inl AttributeError"

text \<open>\<^verbatim>\<open>not value\<close> is \<open>\<not> truthy value\<close>.\<close>

fun truthy :: "pyval \<Rightarrow> bool" where
  "truthy PNone = False"
| "truthy (PBool b) = b"
| "truthy (PInt n) = (n \<noteq> 0)"
| "truthy (PLong n) = (n \<noteq> 0)"
| "truthy (PFloat f) = (f \<noteq> Fin 0)"
| "truthy (PUnicode s) = (s \<noteq> [])"
| "truthy (PList xs) = (xs \<noteq> [])"
| "truthy (PDict d) = (d \<noteq> [])"

fun is_substr :: "string \<Rightarrow> string \<Rightarrow> bool" where
  "is_substr k [] = (k = [])"
| "is_substr k (c # s) = (take (length k) (c # s) = k \<or> is_substr k s)"

definition has_key :: "pydict \<Rightarrow> string \<Rightarrow> bool" where
  "has_key d k = (map_of d k \<noteq> None)"

text \<open>\<^verbatim>\<open>d[k]\<close> on a dict.\<close>

definition getitem :: "pydict \<Rightarrow> string \<Rightarrow> exc + pyval" where
  "getitem d k = (case map_of d k of None \<Rightarrow> Inl KeyError | Some v \<Rightarrow> Inr v)"

text \<open>\<^verbatim>\<open>key in row\<close> for a text key: membership in a dict, an equal element in a list, a
  substring of a text; the other values are not containers.\<close>

fun py_contains :: "pyval \<Rightarrow> string \<Rightarrow> exc + bool" where
  "py_contains (PDict d) k = Inr (has_key d k)"
| "py_contains (PList xs) k = Inr (PUnicode k \<in> set xs)"
| "py_contains (PUnicode s) k = Inr (is_substr k s)"
| "py_contains v k = Inl TypeError"

text \<open>\<^verbatim>\<open>record[key]\<close> for a text key: a list and a text take integer indices only.\<close>

fun py_getitem :: "pyval \<Rightarrow> string \<Rightarrow> exc + pyval" where
  "py_getitem (PDict d) k = getitem d k"
| "py_getitem v k = Inl TypeError"

text \<open>Iteration (\<^verbatim>\<open>for\<close>, \<^verbatim>\<open>enumerate\<close>, \<^verbatim>\<open>tuple\<close>, unpacking): the elements of a list, the
  characters of a text, the keys of a dict.\<close>

fun py_iter :: "pyval \<Rightarrow> exc + pyval list" where
  "py_iter (PList xs) = Inr xs"
| "py_iter (PUnicode s) = Inr (map (\<lambda>c. PUnicode [c]) s)"
| "py_iter (PDict d) = Inr (map (\<lambda>kv. PUnicode (fst kv)) d)"
| "py_iter v = Inl TypeError"

fun py_len :: "pyval \<Rightarrow> exc + nat" where
  "py_len (PList xs) = Inr (length xs)"
| "py_len (PUnicode s) = Inr (length s)"
| "py_len (PDict d) = Inr (length d)"
| "py_len v = Inl TypeError"

text \<open>\<^verbatim>\<open>a, b = value\<close> and \<^verbatim>\<open>x, y, val = coord\<close>: the value must be iterable and yield
  exactly two (three) elements.\<close>

definition py_unpack2 :: "pyval \<Rightarrow> exc + (pyval \<times> pyval)" where
  "py_unpack2 v = (case py_iter v of Inl e \<Rightarrow> Inl e
     | Inr [a, b] \<Rightarrow> Inr (a, b)
     | Inr _ \<Rightarrow> Inl ValueError)"

definition py_unpack3 :: "pyval \<Rightarrow> exc + (pyval \<times> pyval \<times> pyval)" where
  "py_unpack3 v = (case py_iter v of Inl e \<Rightarrow> Inl e
     | Inr [a, b, c] \<Rightarrow> Inr (a, b, c)
     | Inr _ \<Rightarrow> Inl ValueError)"

text \<open>\<^verbatim>\<open>value[i]\<close> for a non-negative integer index.\<close>

fun py_index :: "pyval \<Rightarrow> nat \<Rightarrow> exc + pyval" where
  "py_index (PList xs) i = (if i < length xs then Inr (xs ! i) else Inl IndexError)"
| "py_index (PUnicode s) i = (if i < length s then Inr (PUnicode [s ! i]) else Inl IndexError)"
| "py_index (PDict d) i = Inl KeyError"
| "py_index v i = Inl TypeError"

text \<open>Hashing, as membership in a set or a dict needs it: a list and a dict are
  unhashable, a tuple is hashable when its elements are.\<close>

fun hashable :: "pyval \<Rightarrow> bool" where
  "hashable (PList xs) = False"
| "hashable (PDict d) = False"
| "hashable v = True"

text \<open>\<^verbatim>\<open>value in names\<close> for a set (or the keys of a dict) of text constants.\<close>

definition in_names :: "pyval \<Rightarrow> string list \<Rightarrow> exc + bool" where
  "in_names v names = (if \<not> hashable v then Inl TypeError
     else Inr (case v of PUnicode s \<Rightarrow> s \<in> set names | _ \<Rightarrow> False))"

subsection \<open>Messages\<close>

text \<open>A message is the format string of the source with the arguments it is applied to
  (\<^verbatim>\<open>%d\<close> of an index, \<^verbatim>\<open>%s\<close> of a text constant, of a value, or of the \<^verbatim>\<open>repr\<close> of a
  value); the empty message \<^verbatim>\<open>''\<close> has the empty format. Every format string of the
  validator starts with literal text, so the rendered message is empty exactly when the
  format is.\<close>

datatype arg = AInt int | ALit string | AStr pyval | ARepr pyval

datatype msg = Msg string "arg list"

definition no_defect :: msg where
  "no_defect = Msg [] []"

fun msg_len_pos :: "msg \<Rightarrow> bool" where
  "msg_len_pos (Msg f as) = (f \<noteq> [])"

definition apos :: string where
  "apos = [CHR 0x27]"

subsection \<open>The library function \<^verbatim>\<open>datetime.strptime\<close>\<close>

text \<open>
  \<^verbatim>\<open>datetime.strptime(val, fmt)\<close> is not code of the validator; it is modelled after the
  implementation in CPython 2.7 (\<^verbatim>\<open>_strptime.py\<close>). The argument must be text that encodes
  as ASCII without a null character. The format becomes a regular expression, each
  directive a group of alternatives tried in order, a literal character itself, compiled
  with \<^verbatim>\<open>IGNORECASE\<close>; the expression is matched at the start of the text and the match
  must consume all of it; the fields found must form a date and a time of day.
\<close>

definition digits :: string where
  "digits = ''0123456789''"

definition nonzero_digits :: string where
  "nonzero_digits = ''123456789''"

text \<open>The alternatives of a directive, each a sequence of character classes. A directive
  that is not listed matches nothing.\<close>

definition directive :: "char \<Rightarrow> string list list" where
  "directive c =
    (if c = CHR ''Y'' then [[digits, digits, digits, digits]]
     else if c = CHR ''m'' then [[''1'', ''012''], [''0'', nonzero_digits], [nonzero_digits]]
     else if c = CHR ''d'' then [[''3'', ''01''], [''12'', digits], [''0'', nonzero_digits],
                                 [nonzero_digits], ['' '', nonzero_digits]]
     else if c = CHR ''H'' then [[''2'', ''0123''], [''01'', digits], [digits]]
     else if c = CHR ''M'' then [[''012345'', digits], [digits]]
     else if c = CHR ''S'' then [[''6'', ''01''], [''012345'', digits], [digits]]
     else if c = CHR ''f'' then [[digits, digits, digits, digits, digits, digits],
                                 [digits, digits, digits, digits, digits],
                                 [digits, digits, digits, digits],
                                 [digits, digits, digits],
                                 [digits, digits],
                                 [digits]]
     else [])"

datatype fitem = Lit char | Dir char

fun parse_fmt :: "string \<Rightarrow> fitem list" where
  "parse_fmt [] = []"
| "parse_fmt [c] = [Lit c]"
| "parse_fmt (c # d # s) =
     (if c = CHR ''%'' then Dir d # parse_fmt s else Lit c # parse_fmt (d # s))"

definition ascii_lower :: "char \<Rightarrow> char" where
  "ascii_lower c = (let n = (of_char c :: nat)
     in if 65 \<le> n \<and> n \<le> 90 then char_of (n + 32) else c)"

fun match_alt :: "string list \<Rightarrow> string \<Rightarrow> (string \<times> string) option" where
  "match_alt [] s = Some ([], s)"
| "match_alt (cl # cls) [] = None"
| "match_alt (cl # cls) (x # s) =
     (if x \<in> set cl
      then (case match_alt cls s of None \<Rightarrow> None | Some (m, r) \<Rightarrow> Some (x # m, r))
      else None)"

text \<open>Matching with backtracking: the first alternative of a directive after which the
  rest of the expression matches is taken. The result is the text of each group and the
  text left over.\<close>

fun rmatch :: "fitem list \<Rightarrow> string \<Rightarrow> ((char \<times> string) list \<times> string) option"
  and try_alts :: "char \<Rightarrow> fitem list \<Rightarrow> string list list \<Rightarrow> string
                    \<Rightarrow> ((char \<times> string) list \<times> string) option" where
  "rmatch [] s = Some ([], s)"
| "rmatch (Lit c # items) [] = None"
| "rmatch (Lit c # items) (x # s) =
     (if ascii_lower x = ascii_lower c then rmatch items s else None)"
| "rmatch (Dir d # items) s = try_alts d items (directive d) s"
| "try_alts d items [] s = None"
| "try_alts d items (a # alts) s =
     (case match_alt a s of
        None \<Rightarrow> try_alts d items alts s
      | Some (m, r) \<Rightarrow>
          (case rmatch items r of
             None \<Rightarrow> try_alts d items alts s
           | Some (g, r') \<Rightarrow> Some ((d, m) # g, r')))"

text \<open>\<^verbatim>\<open>int(text)\<close> of a group: decimal digits, surrounding blanks ignored.\<close>

definition dec :: "string \<Rightarrow> nat" where
  "dec s = foldl (\<lambda>n c. 10 * n + (of_char c - 48)) 0 (filter (\<lambda>c. c \<noteq> CHR '' '') s)"

definition group_val :: "(char \<times> string) list \<Rightarrow> char \<Rightarrow> nat \<Rightarrow> nat" where
  "group_val g d dflt = (case map_of g d of None \<Rightarrow> dflt | Some m \<Rightarrow> dec m)"

definition is_leap :: "nat \<Rightarrow> bool" where
  "is_leap y = (y mod 4 = 0 \<and> (y mod 100 \<noteq> 0 \<or> y mod 400 = 0))"

definition days_in_month :: "nat \<Rightarrow> nat \<Rightarrow> nat" where
  "days_in_month y m =
     (if m = 2 then (if is_leap y then 29 else 28)
      else if m = 4 \<or> m = 6 \<or> m = 9 \<or> m = 11 then 30 else 31)"

record datetime =
  year :: nat
  month :: nat
  day :: nat
  hour :: nat
  minute :: nat
  second :: nat
  microsecond :: nat

definition strptime_text :: "string \<Rightarrow> string \<Rightarrow> exc + datetime" where
  "strptime_text s fmt =
     (case rmatch (parse_fmt fmt) s of
        None \<Rightarrow> Inl ValueError
      | Some (g, rest) \<Rightarrow>
          if rest \<noteq> [] then Inl ValueError
          else let y = group_val g (CHR ''Y'') 1900; m = group_val g (CHR ''m'') 1;
                   d = group_val g (CHR ''d'') 1; H = group_val g (CHR ''H'') 0;
                   M = group_val g (CHR ''M'') 0; S = group_val g (CHR ''S'') 0;
                   f = (case map_of g (CHR ''f'') of None \<Rightarrow> 0
                        | Some t \<Rightarrow> dec (t @ replicate (6 - length t) (CHR ''0'')))
               in if 1 \<le> y \<and> y \<le> 9999 \<and> 1 \<le> m \<and> m \<le> 12 \<and> 1 \<le> d \<and> d \<le> days_in_month y m
                     \<and> H \<le> 23 \<and> M \<le> 59 \<and> S \<le> 59
                  then Inr \<lparr>year = y, month = m, day = d, hour = H, minute = M, second = S,
                            microsecond = f\<rparr>
                  else Inl ValueError)"

fun strptime :: "pyval \<Rightarrow> string \<Rightarrow> exc + datetime" where
  "strptime (PUnicode s) fmt =
     (if list_ex (\<lambda>c. 128 \<le> (of_char c :: nat)) s then Inl UnicodeEncodeError
      else if CHR 0x00 \<in> set s then Inl TypeError
      else strptime_text s fmt)"
| "strptime v fmt = Inl TypeError"

subsection \<open>Documents\<close>

text \<open>
  A hierarchical document is the open file handle: the attribute mapping of the root
  (\<^verbatim>\<open>table.attrs\<close>) and the tree of groups and datasets below it, addressed by a path
  (\<^verbatim>\<open>'observation/ids' in table\<close>, \<^verbatim>\<open>table.get('observation/ids', None)\<close>). A dataset is
  one-dimensional; attribute values are values of the same kind as in a flat document.
  The code tells the two encodings apart by \<^verbatim>\<open>hasattr(table, 'attrs')\<close>.
\<close>

datatype h5node = Group "(string \<times> h5node) list" | Dataset "pyval list"

record hdf5 =
  attrs :: pydict
  members :: "(string \<times> h5node) list"

datatype table = Json pydict | Hdf5 hdf5

fun split_path :: "string \<Rightarrow> string list" where
  "split_path [] = [[]]"
| "split_path (c # s) =
     (if c = CHR ''/'' then [] # split_path s
      else (case split_path s of [] \<Rightarrow> [[c]] | p # ps \<Rightarrow> (c # p) # ps))"

fun h5_lookup :: "(string \<times> h5node) list \<Rightarrow> string list \<Rightarrow> h5node option" where
  "h5_lookup ms [] = None"
| "h5_lookup ms [n] = map_of ms n"
| "h5_lookup ms (n # p) =
     (case map_of ms n of Some (Group ms') \<Rightarrow> h5_lookup ms' p | _ \<Rightarrow> None)"

text \<open>\<^verbatim>\<open>table.get(path, None)\<close>; \<^verbatim>\<open>None\<close> is \<open>None\<close>.\<close>

definition h5_get :: "hdf5 \<Rightarrow> string \<Rightarrow> h5node option" where
  "h5_get h path = h5_lookup (members h) (split_path path)"

text \<open>\<^verbatim>\<open>path in table\<close>.\<close>

definition h5_contains :: "hdf5 \<Rightarrow> string \<Rightarrow> bool" where
  "h5_contains h path = (h5_get h path \<noteq> None)"

text \<open>\<^verbatim>\<open>len(obs_ids)\<close> of what \<^verbatim>\<open>table.get\<close> returned: \<^verbatim>\<open>None\<close> has no length.\<close>

fun h5_len :: "h5node option \<Rightarrow> exc + nat" where
  "h5_len None = Inl TypeError"
| "h5_len (Some (Dataset xs)) = Inr (length xs)"
| "h5_len (Some (Group ms)) = Inr (length ms)"

subsection \<open>Class constants\<close>

definition FormatURL :: string where
  "FormatURL = ''http://biom-format.org''"

definition TableTypes :: "string list" where
  "TableTypes = [''otu table'', ''pathway table'', ''function table'', ''ortholog table'',
                 ''gene table'', ''metabolite table'', ''taxon table'']"

definition MatrixTypes :: "string list" where
  "MatrixTypes = [''sparse'', ''dense'']"

definition ElementTypes :: "(string \<times> pytype) list" where
  "ElementTypes = [(''int'', TInt), (''str'', TStr), (''float'', TFloat), (''unicode'', TUnicode)]"

definition HDF5FormatVersions :: "(int \<times> int) list" where
  "HDF5FormatVersions = [(2, 0)]"

subsection \<open>Field rules\<close>

fun json_or_hdf5_get :: "table \<Rightarrow> string \<Rightarrow> pyval" where
  "json_or_hdf5_get (Hdf5 h) key = (case map_of (attrs h) key of None \<Rightarrow> PNone | Some v \<Rightarrow> v)"
| "json_or_hdf5_get (Json t) key = (case map_of t key of None \<Rightarrow> PNone | Some v \<Rightarrow> v)"

fun json_or_hdf5_key :: "table \<Rightarrow> string \<Rightarrow> string" where
  "json_or_hdf5_key (Hdf5 h) key = map (\<lambda>c. if c = CHR ''_'' then CHR ''-'' else c) key"
| "json_or_hdf5_key (Json t) key = key"

definition is_int :: "pyval \<Rightarrow> bool" where
  "is_int x = isinstance x TInt"

definition valid_nnz :: "hdf5 \<Rightarrow> exc + msg" where
  "valid_nnz h =
     (case getitem (attrs h) ''nnz'' of Inl e \<Rightarrow> Inl e
      | Inr v \<Rightarrow>
          if \<not> isinstance v TInt then Inr (Msg ''nnz is not an integer!'' [])
          else if py_int v < 0 then Inr (Msg ''nnz is negative!'' [])
          else Inr no_defect)"

definition valid_format_url :: "table \<Rightarrow> exc + msg" where
  "valid_format_url tb =
     (let key = json_or_hdf5_key tb ''format_url'';
          value = json_or_hdf5_get tb key
      in if value \<noteq> PUnicode FormatURL then Inr (Msg (''Invalid '%s'' @ apos) [ALit key])
         else Inr no_defect)"

definition valid_shape :: "table \<Rightarrow> exc + msg" where
  "valid_shape tb =
     (case py_unpack2 (json_or_hdf5_get tb ''shape'') of Inl e \<Rightarrow> Inl e
      | Inr (a, b) \<Rightarrow>
          if \<not> (is_int a \<and> is_int b)
          then Inr (Msg (apos @ ''shape' values do not appear to be integers'') [])
          else Inr no_defect)"

definition valid_matrix_type :: "pydict \<Rightarrow> exc + msg" where
  "valid_matrix_type t =
     (case getitem t ''matrix_type'' of Inl e \<Rightarrow> Inl e
      | Inr v \<Rightarrow>
          (case in_names v MatrixTypes of Inl e \<Rightarrow> Inl e
           | Inr b \<Rightarrow> if \<not> b then Inr (Msg (''Unknown 'matrix_type'' @ apos) [])
                      else Inr no_defect))"

definition valid_matrix_element_type :: "pydict \<Rightarrow> exc + msg" where
  "valid_matrix_element_type t =
     (case getitem t ''matrix_element_type'' of Inl e \<Rightarrow> Inl e
      | Inr v \<Rightarrow>
          (case in_names v (map fst ElementTypes) of Inl e \<Rightarrow> Inl e
           | Inr b \<Rightarrow> if \<not> b then Inr (Msg (''Unknown 'matrix_element_type'' @ apos) [])
                      else Inr no_defect))"

definition valid_times :: "string list" where
  "valid_times = [''%Y-%m-%d'', ''%Y-%m-%dT%H:%M'', ''%Y-%m-%dT%H:%M:%S'',
                  ''%Y-%m-%dT%H:%M:%S.%f'']"

text \<open>The loop of \<^verbatim>\<open>_check_date\<close>: the bare \<^verbatim>\<open>except\<close> swallows whatever \<^verbatim>\<open>strptime\<close>
  raises, the first format that parses ends the loop.\<close>

fun check_date_loop :: "pyval \<Rightarrow> string list \<Rightarrow> bool" where
  "check_date_loop val [] = False"
| "check_date_loop val (fmt # fmts) =
     (case strptime val fmt of Inr dt \<Rightarrow> True | Inl e \<Rightarrow> check_date_loop val fmts)"

definition check_date :: "pyval \<Rightarrow> msg" where
  "check_date val =
     (if check_date_loop val valid_times then no_defect
      else Msg ''Timestamp does not appear to be ISO 8601'' [])"

definition valid_creation_date :: "hdf5 \<Rightarrow> exc + msg" where
  "valid_creation_date h =
     (case getitem (attrs h) ''creation-date'' of Inl e \<Rightarrow> Inl e
      | Inr v \<Rightarrow> Inr (check_date v))"

definition valid_datetime :: "pydict \<Rightarrow> exc + msg" where
  "valid_datetime t =
     (case getitem t ''date'' of Inl e \<Rightarrow> Inl e | Inr v \<Rightarrow> Inr (check_date v))"

text \<open>\<^verbatim>\<open>self.ElementTypes[name]\<close>.\<close>

definition element_type :: "pyval \<Rightarrow> exc + pytype" where
  "element_type v =
     (if \<not> hashable v then Inl TypeError
      else case v of
             PUnicode s \<Rightarrow> (case map_of ElementTypes s of None \<Rightarrow> Inl KeyError | Some ty \<Rightarrow> Inr ty)
           | _ \<Rightarrow> Inl KeyError)"

text \<open>The loop of \<^verbatim>\<open>_valid_sparse_data\<close> over \<^verbatim>\<open>enumerate(table_json['data'])\<close>; the
  bare \<^verbatim>\<open>except\<close> around the unpacking turns every failure into a message.\<close>

fun sparse_loop :: "pytype \<Rightarrow> pyval \<Rightarrow> pyval \<Rightarrow> nat \<Rightarrow> pyval list \<Rightarrow> msg" where
  "sparse_loop dtype n_rows n_cols idx [] = no_defect"
| "sparse_loop dtype n_rows n_cols idx (coord # rest) =
     (case py_unpack3 coord of
        Inl e \<Rightarrow> Msg ''Bad matrix entry idx %d: %s'' [AInt (int idx), ARepr coord]
      | Inr (x, y, val) \<Rightarrow>
          if \<not> is_int x \<or> \<not> is_int y
          then Msg ''Bad x or y type at idx %d: %s'' [AInt (int idx), ARepr coord]
          else if \<not> isinstance val dtype
          then Msg ''Bad value at idx %d: %s'' [AInt (int idx), ARepr coord]
          else if py_int x < 0 \<or> int_gt (py_int x) n_rows
          then Msg ''x out of bounds at idx %d: %s'' [AInt (int idx), ARepr coord]
          else if py_int y < 0 \<or> int_gt (py_int y) n_cols
          then Msg ''y out of bounds at idx %d: %s'' [AInt (int idx), ARepr coord]
          else sparse_loop dtype n_rows n_cols (Suc idx) rest)"

definition valid_sparse_data :: "pydict \<Rightarrow> exc + msg" where
  "valid_sparse_data t =
     (case getitem t ''matrix_element_type'' of Inl e \<Rightarrow> Inl e | Inr name \<Rightarrow>
      case element_type name of Inl e \<Rightarrow> Inl e | Inr dtype \<Rightarrow>
      case getitem t ''shape'' of Inl e \<Rightarrow> Inl e | Inr shape \<Rightarrow>
      case py_unpack2 shape of Inl e \<Rightarrow> Inl e | Inr (n_rows0, n_cols0) \<Rightarrow>
      case py_sub1 n_rows0 of Inl e \<Rightarrow> Inl e | Inr n_rows \<Rightarrow>
      case py_sub1 n_cols0 of Inl e \<Rightarrow> Inl e | Inr n_cols \<Rightarrow>
      case getitem t ''data'' of Inl e \<Rightarrow> Inl e | Inr data \<Rightarrow>
      case py_iter data of Inl e \<Rightarrow> Inl e | Inr coords \<Rightarrow>
        Inr (sparse_loop dtype n_rows n_cols 0 coords))"

text \<open>\<^verbatim>\<open>reduce(and_, bools)\<close>: without an initial value, the empty list is a
  \<^verbatim>\<open>TypeError\<close>.\<close>

fun reduce_and :: "bool list \<Rightarrow> exc + bool" where
  "reduce_and [] = Inl TypeError"
| "reduce_and (b # bs) = Inr (foldl (\<and>) b bs)"

text \<open>The loop of \<^verbatim>\<open>_valid_dense_data\<close>; \<open>None\<close> when it runs to its end without
  returning.\<close>

fun dense_loop :: "pytype \<Rightarrow> pyval \<Rightarrow> pyval list \<Rightarrow> exc + msg option" where
  "dense_loop dtype n_cols [] = Inr None"
| "dense_loop dtype n_cols (row # rest) =
     (case py_len row of Inl e \<Rightarrow> Inl e | Inr n \<Rightarrow>
      if ne_int (int n) n_cols then Inr (Some (Msg ''Incorrect number of cols: %s'' [ARepr row]))
      else
      case py_iter row of Inl e \<Rightarrow> Inl e | Inr vs \<Rightarrow>
      case reduce_and (map (\<lambda>v. isinstance v dtype) vs) of Inl e \<Rightarrow> Inl e | Inr b \<Rightarrow>
      if \<not> b then Inr (Some (Msg ''Bad datatype in row: %s'' [ARepr row]))
      else dense_loop dtype n_cols rest)"

definition valid_dense_data :: "pydict \<Rightarrow> exc + msg" where
  "valid_dense_data t =
     (case getitem t ''matrix_element_type'' of Inl e \<Rightarrow> Inl e | Inr name \<Rightarrow>
      case element_type name of Inl e \<Rightarrow> Inl e | Inr dtype \<Rightarrow>
      case getitem t ''shape'' of Inl e \<Rightarrow> Inl e | Inr shape \<Rightarrow>
      case py_unpack2 shape of Inl e \<Rightarrow> Inl e | Inr (n_rows, n_cols) \<Rightarrow>
      case getitem t ''data'' of Inl e \<Rightarrow> Inl e | Inr data \<Rightarrow>
      case py_iter data of Inl e \<Rightarrow> Inl e | Inr rows \<Rightarrow>
      case dense_loop dtype n_cols rows of Inl e \<Rightarrow> Inl e
      | Inr (Some m) \<Rightarrow> Inr m
      | Inr None \<Rightarrow>
          (case py_len data of Inl e \<Rightarrow> Inl e | Inr n \<Rightarrow>
           if ne_int (int n) n_rows then Inr (Msg ''Incorrect number of rows in matrix'' [])
           else Inr no_defect))"

text \<open>\<^verbatim>\<open>tuple(ver) not in self.HDF5FormatVersions\<close>: the tuple is hashed (so are its
  elements) and compared with each accepted pair; \<^verbatim>\<open>str(ver)\<close> of a text encodes it as
  ASCII.\<close>

definition version_accepted :: "pyval list \<Rightarrow> bool" where
  "version_accepted xs =
     (case xs of [a, b] \<Rightarrow> list_ex (\<lambda>(m, n). \<not> ne_int m a \<and> \<not> ne_int n b) HDF5FormatVersions
      | _ \<Rightarrow> False)"

fun py_str :: "pyval \<Rightarrow> exc + arg" where
  "py_str (PUnicode s) =
     (if list_ex (\<lambda>c. 128 \<le> (of_char c :: nat)) s then Inl UnicodeEncodeError
      else Inr (AStr (PUnicode s)))"
| "py_str v = Inr (AStr v)"

definition valid_hdf5_format_version :: "hdf5 \<Rightarrow> exc + msg" where
  "valid_hdf5_format_version h =
     (case getitem (attrs h) ''format-version'' of Inl e \<Rightarrow> Inl e | Inr ver \<Rightarrow>
      case py_iter ver of Inl e \<Rightarrow> Inl e | Inr xs \<Rightarrow>
      if \<not> list_all hashable xs then Inl TypeError
      else if \<not> version_accepted xs
      then (case py_str ver of Inl e \<Rightarrow> Inl e
            | Inr a \<Rightarrow> Inr (Msg (''Invalid format version '%s'' @ apos) [a]))
      else Inr no_defect)"

text \<open>\<open>format_version\<close> is the configured version, a byte string of ASCII characters
  (the default is \<^verbatim>\<open>'1.0.0'\<close>).\<close>

definition valid_format :: "string \<Rightarrow> pydict \<Rightarrow> exc + msg" where
  "valid_format format_version t =
     (case getitem t ''format'' of Inl e \<Rightarrow> Inl e | Inr v \<Rightarrow>
      if v \<noteq> PUnicode format_version
      then Inr (Msg (''Invalid format '%s', must be '%s'' @ apos) [AStr v, ALit format_version])
      else Inr no_defect)"

definition valid_type :: "table \<Rightarrow> exc + msg" where
  "valid_type tb =
     (let key = json_or_hdf5_key tb ''type'';
          value = json_or_hdf5_get tb key
      in case py_lower value of Inl e \<Rightarrow> Inl e | Inr l \<Rightarrow>
         if l \<notin> set TableTypes then Inr (Msg ''Unknown BIOM type: %s'' [AStr value])
         else Inr no_defect)"

definition valid_generated_by :: "table \<Rightarrow> exc + msg" where
  "valid_generated_by tb =
     (let key = json_or_hdf5_key tb ''generated_by'';
          value = json_or_hdf5_get tb key
      in if \<not> truthy value then Inr (Msg (apos @ ''generated_by' is not populated'') [])
         else Inr no_defect)"

definition valid_nullable_id :: "table \<Rightarrow> exc + msg" where
  "valid_nullable_id tb = Inr no_defect"

definition valid_id :: "pyval \<Rightarrow> exc + msg" where
  "valid_id record =
     (case py_getitem record ''id'' of Inl e \<Rightarrow> Inl e | Inr v \<Rightarrow>
      if \<not> truthy v then Inr (Msg (apos @ ''id' in %s appears empty'') [AStr record])
      else Inr no_defect)"

definition valid_metadata :: "pyval \<Rightarrow> exc + msg" where
  "valid_metadata record =
     (case py_getitem record ''metadata'' of Inl e \<Rightarrow> Inl e | Inr v \<Rightarrow>
      if v = PNone then Inr no_defect
      else (case v of PDict d \<Rightarrow> Inr no_defect
            | _ \<Rightarrow> Inr (Msg ''metadata is neither null or an object'' [])))"

text \<open>The inner loop of \<^verbatim>\<open>_valid_rows\<close> and \<^verbatim>\<open>_valid_columns\<close> over the required keys of
  one entry (\<open>None\<close> when the entry passes), and the outer loop over the enumerated
  entries. The two methods of the source differ in the field they read and in the format
  of the message for a missing key, which are parameters here.\<close>

definition entry_keys :: "(string \<times> (pyval \<Rightarrow> exc + msg)) list" where
  "entry_keys = [(''id'', valid_id), (''metadata'', valid_metadata)]"

fun check_entry :: "string \<Rightarrow> nat \<Rightarrow> pyval \<Rightarrow> (string \<times> (pyval \<Rightarrow> exc + msg)) list
                     \<Rightarrow> exc + msg option" where
  "check_entry fmt idx row [] = Inr None"
| "check_entry fmt idx row ((key, method) # keys) =
     (case py_contains row key of Inl e \<Rightarrow> Inl e | Inr present \<Rightarrow>
      if \<not> present then Inr (Some (Msg fmt [AInt (int idx), ALit key]))
      else
      case method row of Inl e \<Rightarrow> Inl e | Inr result \<Rightarrow>
      if msg_len_pos result then Inr (Some result)
      else check_entry fmt idx row keys)"

fun entries_loop :: "string \<Rightarrow> (string \<times> (pyval \<Rightarrow> exc + msg)) list \<Rightarrow> nat \<Rightarrow> pyval list
                      \<Rightarrow> exc + msg" where
  "entries_loop fmt keys idx [] = Inr no_defect"
| "entries_loop fmt keys idx (row # rest) =
     (case check_entry fmt idx row keys of Inl e \<Rightarrow> Inl e
      | Inr (Some m) \<Rightarrow> Inr m
      | Inr None \<Rightarrow> entries_loop fmt keys (Suc idx) rest)"

text \<open>\<^verbatim>\<open>required_by_type\<close> is empty, so \<^verbatim>\<open>required_by_type.get(table_json['type'].lower(), [])\<close>
  adds no key; reading and lowering the type can still raise.\<close>

definition valid_entries :: "string \<Rightarrow> string \<Rightarrow> pydict \<Rightarrow> exc + msg" where
  "valid_entries field fmt t =
     (case getitem t ''type'' of Inl e \<Rightarrow> Inl e | Inr ty \<Rightarrow>
      case py_lower ty of Inl e \<Rightarrow> Inl e | Inr l \<Rightarrow>
      case getitem t field of Inl e \<Rightarrow> Inl e | Inr entries \<Rightarrow>
      case py_iter entries of Inl e \<Rightarrow> Inl e | Inr rows \<Rightarrow>
        entries_loop fmt entry_keys 0 rows)"

definition valid_rows :: "pydict \<Rightarrow> exc + msg" where
  "valid_rows t = valid_entries ''rows'' (''ROW IDX %d MISSING '%s' FIELD'') t"

definition valid_columns :: "pydict \<Rightarrow> exc + msg" where
  "valid_columns t = valid_entries ''columns'' (''COL IDX %d MISSING '%s' FIELD'') t"

definition valid_data :: "pydict \<Rightarrow> exc + msg" where
  "valid_data t =
     (case getitem t ''matrix_type'' of Inl e \<Rightarrow> Inl e | Inr mt \<Rightarrow>
      case py_lower mt of Inl e \<Rightarrow> Inl e | Inr l \<Rightarrow>
      if l = ''sparse'' then valid_sparse_data t
      else if l = ''dense'' then valid_dense_data t
      else Inr (Msg ''Unknown matrix type'' []))"

subsection \<open>The report and the two drivers\<close>

record report =
  valid_table :: bool
  report_lines :: "msg list"

definition append_line :: "report \<Rightarrow> msg \<Rightarrow> report" where
  "append_line r m = r\<lparr>report_lines := report_lines r @ [m]\<rparr>"

definition invalid :: "report \<Rightarrow> report" where
  "invalid r = r\<lparr>valid_table := False\<rparr>"

definition required_keys :: "string \<Rightarrow> (string \<times> (pydict \<Rightarrow> exc + msg)) list" where
  "required_keys format_version =
     [(''format'', valid_format format_version),
      (''format_url'', \<lambda>t. valid_format_url (Json t)),
      (''type'', \<lambda>t. valid_type (Json t)),
      (''rows'', valid_rows),
      (''columns'', valid_columns),
      (''shape'', \<lambda>t. valid_shape (Json t)),
      (''data'', valid_data),
      (''matrix_type'', valid_matrix_type),
      (''matrix_element_type'', valid_matrix_element_type),
      (''generated_by'', \<lambda>t. valid_generated_by (Json t)),
      (''id'', \<lambda>t. valid_nullable_id (Json t)),
      (''date'', valid_datetime)]"

text \<open>The loop \<^verbatim>\<open>for key, method in required_keys\<close> of \<^verbatim>\<open>_validate_json\<close>.\<close>

fun json_keys_loop :: "bool \<Rightarrow> pydict \<Rightarrow> (string \<times> (pydict \<Rightarrow> exc + msg)) list \<Rightarrow> report
                        \<Rightarrow> exc + report" where
  "json_keys_loop detailed_report t [] r = Inr r"
| "json_keys_loop detailed_report t ((key, method) # rest) r =
     (if \<not> has_key t key
      then json_keys_loop detailed_report t rest
             (append_line (invalid r) (Msg (''Missing field: '%s'' @ apos) [ALit key]))
      else
        let r1 = (if detailed_report
                  then append_line r (Msg (''Validating '%s'...'') [ALit key]) else r)
        in case method t of Inl e \<Rightarrow> Inl e | Inr status_msg \<Rightarrow>
           if msg_len_pos status_msg
           then json_keys_loop detailed_report t rest (append_line (invalid r1) status_msg)
           else json_keys_loop detailed_report t rest r1)"

text \<open>\<^verbatim>\<open>field in table_json and len(table_json[field]) != table_json['shape'][i]\<close>.\<close>

definition len_differs :: "pydict \<Rightarrow> string \<Rightarrow> nat \<Rightarrow> exc + bool" where
  "len_differs t field i =
     (if \<not> has_key t field then Inr False
      else
      case getitem t field of Inl e \<Rightarrow> Inl e | Inr entries \<Rightarrow>
      case py_len entries of Inl e \<Rightarrow> Inl e | Inr n \<Rightarrow>
      case getitem t ''shape'' of Inl e \<Rightarrow> Inl e | Inr shape \<Rightarrow>
      case py_index shape i of Inl e \<Rightarrow> Inl e | Inr s \<Rightarrow>
        Inr (ne_int (int n) s))"

definition validate_json :: "string \<Rightarrow> bool \<Rightarrow> pydict \<Rightarrow> exc + report" where
  "validate_json format_version detailed_report t =
     (let r0 = \<lparr>valid_table = True, report_lines = []\<rparr>;
          r1 = (if detailed_report then append_line r0 (Msg ''Validating BIOM table...'' [])
                else r0)
      in case json_keys_loop detailed_report t (required_keys format_version) r1 of
           Inl e \<Rightarrow> Inl e
         | Inr r2 \<Rightarrow>
             if has_key t ''shape'' then
               let r3 = (if detailed_report
                         then append_line r2
                           (Msg (''Validating 'shape' versus number of rows and columns...'') [])
                         else r2)
               in case len_differs t ''rows'' 0 of Inl e \<Rightarrow> Inl e | Inr rows_differ \<Rightarrow>
                  let r4 = (if rows_differ
                            then append_line (invalid r3)
                              (Msg (''Number of rows in 'rows' is not equal to 'shape'' @ apos) [])
                            else r3)
                  in case len_differs t ''columns'' 1 of Inl e \<Rightarrow> Inl e | Inr cols_differ \<Rightarrow>
                     Inr (if cols_differ
                          then append_line (invalid r4)
                            (Msg (''Number of columns in 'columns' is not equal to 'shape''
                                  @ apos) [])
                          else r4)
             else Inr r2)"

definition required_attrs :: "(string \<times> (hdf5 \<Rightarrow> exc + msg)) list" where
  "required_attrs =
     [(''format-url'', \<lambda>h. valid_format_url (Hdf5 h)),
      (''format-version'', valid_hdf5_format_version),
      (''type'', \<lambda>h. valid_type (Hdf5 h)),
      (''shape'', \<lambda>h. valid_shape (Hdf5 h)),
      (''nnz'', valid_nnz),
      (''generated-by'', \<lambda>h. valid_generated_by (Hdf5 h)),
      (''id'', \<lambda>h. valid_nullable_id (Hdf5 h)),
      (''creation-date'', valid_creation_date)]"

definition required_groups :: "string list" where
  "required_groups = [''observation'', ''sample'']"

definition required_datasets :: "string list" where
  "required_datasets =
     [''observation/ids'', ''observation/data'', ''observation/indices'', ''observation/indptr'',
      ''sample/ids'', ''sample/data'', ''sample/indices'', ''sample/indptr'']"

text \<open>The loop \<^verbatim>\<open>for key, method in required_attrs\<close> of \<^verbatim>\<open>_validate_hdf5\<close>.\<close>

fun hdf5_attrs_loop :: "bool \<Rightarrow> hdf5 \<Rightarrow> (string \<times> (hdf5 \<Rightarrow> exc + msg)) list \<Rightarrow> report
                         \<Rightarrow> exc + report" where
  "hdf5_attrs_loop detailed_report h [] r = Inr r"
| "hdf5_attrs_loop detailed_report h ((key, method) # rest) r =
     (if \<not> has_key (attrs h) key
      then hdf5_attrs_loop detailed_report h rest
             (append_line (invalid r) (Msg (''Missing attribute: '%s'' @ apos) [ALit key]))
      else
        let r1 = (if detailed_report
                  then append_line r (Msg (''Validating '%s'...'') [ALit key]) else r)
        in case method h of Inl e \<Rightarrow> Inl e | Inr status_msg \<Rightarrow>
           if msg_len_pos status_msg
           then hdf5_attrs_loop detailed_report h rest (append_line (invalid r1) status_msg)
           else hdf5_attrs_loop detailed_report h rest r1)"

text \<open>The loops over \<^verbatim>\<open>required_groups\<close> and \<^verbatim>\<open>required_datasets\<close>, which differ in the
  format of their line: the verdict falls for a missing path, the line is appended in
  narrative mode only.\<close>

fun presence_loop :: "bool \<Rightarrow> hdf5 \<Rightarrow> string \<Rightarrow> string list \<Rightarrow> report \<Rightarrow> report" where
  "presence_loop detailed_report h fmt [] r = r"
| "presence_loop detailed_report h fmt (path # rest) r =
     (if \<not> h5_contains h path
      then presence_loop detailed_report h fmt rest
             (let r1 = invalid r
              in if detailed_report then append_line r1 (Msg fmt [ALit path]) else r1)
      else presence_loop detailed_report h fmt rest r)"

definition validate_hdf5 :: "bool \<Rightarrow> hdf5 \<Rightarrow> exc + report" where
  "validate_hdf5 detailed_report h =
     (let r0 = \<lparr>valid_table = True, report_lines = []\<rparr>;
          r1 = (if detailed_report then append_line r0 (Msg ''Validating BIOM table...'' [])
                else r0)
      in case hdf5_attrs_loop detailed_report h required_attrs r1 of
           Inl e \<Rightarrow> Inl e
         | Inr r2 \<Rightarrow>
             let r3 = presence_loop detailed_report h ''Missing group: %s'' required_groups r2;
                 r4 = presence_loop detailed_report h ''Missing dataset: %s'' required_datasets r3
             in if has_key (attrs h) ''shape'' then
                  let r5 = (if detailed_report
                            then append_line r4
                              (Msg (''Validating 'shape' versus number of samples and observations...'') [])
                            else r4)
                  in case getitem (attrs h) ''shape'' of Inl e \<Rightarrow> Inl e | Inr shape \<Rightarrow>
                     case py_unpack2 shape of Inl e \<Rightarrow> Inl e | Inr (n_obs, n_samp) \<Rightarrow>
                     let obs_ids = h5_get h ''observation/ids'';
                         samp_ids = h5_get h ''sample/ids'';
                         r6 = (if obs_ids = None
                               then append_line (invalid r5)
                                 (Msg ''observation/ids does not exist, cannot validate shape'' [])
                               else r5);
                         r7 = (if samp_ids = None
                               then append_line (invalid r6)
                                 (Msg ''sample/ids does not exist, cannot validate shape'' [])
                               else r6)
                     in case h5_len obs_ids of Inl e \<Rightarrow> Inl e | Inr n_obs_ids \<Rightarrow>
                        let r8 = (if ne_int (int n_obs_ids) n_obs
                                  then append_line (invalid r7)
                                    (Msg ''Number of observation IDs is not equal to the described shape'' [])
                                  else r7)
                        in case h5_len samp_ids of Inl e \<Rightarrow> Inl e | Inr n_samp_ids \<Rightarrow>
                           Inr (if ne_int (int n_samp_ids) n_samp
                                then append_line (invalid r8)
                                  (Msg ''Number of sample IDs is not equal to the described shape'' [])
                                else r8)
                else Inr r4)"

subsection \<open>What the caller observes, and example documents\<close>

text \<open>The verdict of a run: the exception it raised or the \<^verbatim>\<open>valid_table\<close> of its
  report.\<close>

fun verdict :: "exc + report \<Rightarrow> exc + bool" where
  "verdict (Inl e) = Inl e"
| "verdict (Inr r) = Inr (valid_table r)"

text \<open>The flat document of the end-to-end example, and a hierarchical document of the
  same table.\<close>

definition entry :: "string \<Rightarrow> pyval" where
  "entry i = PDict [(''id'', PUnicode i), (''metadata'', PNone)]"

definition example_table :: pydict where
  "example_table =
     [(''format'', PUnicode ''1.0.0''),
      (''format_url'', PUnicode ''http://biom-format.org''),
      (''type'', PUnicode ''OTU table''),
      (''shape'', PList [PInt 2, PInt 1]),
      (''rows'', PList [entry ''r1'', entry ''r2'']),
      (''columns'', PList [entry ''c1'']),
      (''matrix_type'', PUnicode ''sparse''),
      (''matrix_element_type'', PUnicode ''int''),
      (''data'', PList [PList [PInt 0, PInt 0, PInt 5]]),
      (''generated_by'', PUnicode ''test''),
      (''id'', PNone),
      (''date'', PUnicode ''2011-12-19T19:00:00'')]"

definition example_hdf5 :: hdf5 where
  "example_hdf5 =
     \<lparr>attrs =
        [(''format-url'', PUnicode ''http://biom-format.org''),
         (''format-version'', PList [PInt 2, PInt 0]),
         (''type'', PUnicode ''OTU table''),
         (''shape'', PList [PInt 2, PInt 1]),
         (''nnz'', PInt 1),
         (''generated-by'', PUnicode ''test''),
         (''id'', PNone),
         (''creation-date'', PUnicode ''2011-12-19T19:00:00'')],
      members =
        [(''observation'',
            Group [(''ids'', Dataset [PUnicode ''r1'', PUnicode ''r2'']),
                   (''data'', Dataset [PInt 5]),
                   (''indices'', Dataset [PInt 0]),
                   (''indptr'', Dataset [PInt 0, PInt 1, PInt 1])]),
         (''sample'',
            Group [(''ids'', Dataset [PUnicode ''c1'']),
                   (''data'', Dataset [PInt 5]),
                   (''indices'', Dataset [PInt 0]),
                   (''indptr'', Dataset [PInt 0, PInt 1])])]\<rparr>"

text \<open>A document with one key removed or replaced; a hierarchical document with one
  attribute removed, or one dataset removed from a group.\<close>

definition del_key :: "string \<Rightarrow> (string \<times> 'a) list \<Rightarrow> (string \<times> 'a) list" where
  "del_key k d = filter (\<lambda>kv. fst kv \<noteq> k) d"

definition set_key :: "string \<Rightarrow> 'a \<Rightarrow> (string \<times> 'a) list \<Rightarrow> (string \<times> 'a) list" where
  "set_key k v d = map (\<lambda>kv. if fst kv = k then (k, v) else kv) d"

definition del_attr :: "string \<Rightarrow> hdf5 \<Rightarrow> hdf5" where
  "del_attr k h = h\<lparr>attrs := del_key k (attrs h)\<rparr>"

fun del_in_group :: "string \<Rightarrow> h5node \<Rightarrow> h5node" where
  "del_in_group n (Group ms) = Group (del_key n ms)"
| "del_in_group n (Dataset xs) = Dataset xs"

definition del_dataset :: "string \<Rightarrow> string \<Rightarrow> hdf5 \<Rightarrow> hdf5" where
  "del_dataset g n h =
     h\<lparr>members := map (\<lambda>kv. if fst kv = g then (g, del_in_group n (snd kv)) else kv) (members h)\<rparr>"

subsection \<open>Entries that pass, in the words of the specification\<close>

text \<open>The inclusive range \<open>[0, n - 1]\<close> of an index against a declared extent \<open>n\<close>; a
  sparse entry that violates nothing: a triple of integer-typed indices within the ranges
  and a value of the declared element type.\<close>

definition in_bounds :: "int \<Rightarrow> int \<Rightarrow> bool" where
  "in_bounds i n = (0 \<le> i \<and> i \<le> n - 1)"

definition sparse_entry_ok :: "pytype \<Rightarrow> int \<Rightarrow> int \<Rightarrow> pyval \<Rightarrow> bool" where
  "sparse_entry_ok dtype r c coord =
     (case coord of
        PList [x, y, v] \<Rightarrow> is_int x \<and> is_int y \<and> isinstance v dtype
                            \<and> in_bounds (py_int x) r \<and> in_bounds (py_int y) c
      | _ \<Rightarrow> False)"

text \<open>A dense row that violates nothing: a list of exactly \<open>c\<close> entries, \<open>c\<close> not zero, each
  of the declared element type.\<close>

definition dense_row_ok :: "pytype \<Rightarrow> int \<Rightarrow> pyval \<Rightarrow> bool" where
  "dense_row_ok dtype c row =
     (case row of
        PList vs \<Rightarrow> int (length vs) = c \<and> vs \<noteq> [] \<and> list_all (\<lambda>v. isinstance v dtype) vs
      | _ \<Rightarrow> False)"

text \<open>A row or column entry that violates nothing: a mapping with a non-empty \<^verbatim>\<open>id\<close> and
  a \<^verbatim>\<open>metadata\<close> that is null or a mapping.\<close>

definition axis_entry_ok :: "pyval \<Rightarrow> bool" where
  "axis_entry_ok e =
     (case e of
        PDict d \<Rightarrow>
          (case map_of d ''id'' of
             None \<Rightarrow> False
           | Some i \<Rightarrow> truthy i \<and>
               (case map_of d ''metadata'' of
                  Some PNone \<Rightarrow> True
                | Some (PDict m) \<Rightarrow> True
                | _ \<Rightarrow> False))
      | _ \<Rightarrow> False)"

subsection \<open>A document that lacks one required item, all else conformant\<close>

text \<open>A flat document that lacks the key \<open>k\<close> while every other required key is present
  and its rule returns no defect, and the lengths of \<^verbatim>\<open>rows\<close> and \<^verbatim>\<open>columns\<close> agree with
  \<^verbatim>\<open>shape\<close>.\<close>

definition json_conformant_except :: "string \<Rightarrow> string \<Rightarrow> pydict \<Rightarrow> bool" where
  "json_conformant_except fv k t =
     (\<not> has_key t k
      \<and> list_all (\<lambda>(key, method). key = k \<or> (has_key t key \<and> method t = Inr no_defect))
            (required_keys fv)
      \<and> len_differs t ''rows'' 0 = Inr False
      \<and> len_differs t ''columns'' 1 = Inr False)"

text \<open>A hierarchical document in which every required attribute (but \<open>k\<close>, if given) is
  present and its rule returns no defect; in which every required group and dataset (but
  \<open>p\<close>, if given) is present; and in which the lengths of the two ids datasets agree with
  the \<^verbatim>\<open>shape\<close> attribute, if there is one.\<close>

definition attrs_conformant_except :: "string option \<Rightarrow> hdf5 \<Rightarrow> bool" where
  "attrs_conformant_except k h =
     list_all (\<lambda>(key, method). Some key = k \<or> (has_key (attrs h) key \<and> method h = Inr no_defect))
       required_attrs"

definition paths_present_except :: "string option \<Rightarrow> hdf5 \<Rightarrow> bool" where
  "paths_present_except p h =
     list_all (\<lambda>path. Some path = p \<or> h5_contains h path) (required_groups @ required_datasets)"

definition ids_match_shape :: "hdf5 \<Rightarrow> bool" where
  "ids_match_shape h =
     (case map_of (attrs h) ''shape'' of
        None \<Rightarrow> True
      | Some shape \<Rightarrow>
          (case py_unpack2 shape of
             Inl e \<Rightarrow> False
           | Inr (n_obs, n_samp) \<Rightarrow>
               (case h5_len (h5_get h ''observation/ids'') of
                  Inl e \<Rightarrow> False
                | Inr a \<Rightarrow> \<not> ne_int (int a) n_obs)
               \<and> (case h5_len (h5_get h ''sample/ids'') of
                      Inl e \<Rightarrow> False
                    | Inr b \<Rightarrow> \<not> ne_int (int b) n_samp)))"

subsection \<open>The date patterns, in the words of the specification\<close>

text \<open>The four patterns as they are written: each of the letters \<^verbatim>\<open>Y\<close>, \<^verbatim>\<open>M\<close>, \<^verbatim>\<open>D\<close>, \<^verbatim>\<open>H\<close>,
  \<^verbatim>\<open>S\<close>, \<^verbatim>\<open>f\<close> stands for one decimal digit, every other character for itself.\<close>

definition spec_date_patterns :: "string list" where
  "spec_date_patterns = [''YYYY-MM-DD'', ''YYYY-MM-DDTHH:MM'', ''YYYY-MM-DDTHH:MM:SS'',
                         ''YYYY-MM-DDTHH:MM:SS.ffffff'']"

fun matches_pattern :: "string \<Rightarrow> string \<Rightarrow> bool" where
  "matches_pattern [] [] = True"
| "matches_pattern (p # ps) (c # cs) =
     ((if p \<in> set ''YMDHSf'' then c \<in> set digits else c = p) \<and> matches_pattern ps cs)"
| "matches_pattern ps cs = False"

section \<open>Properties\<close>

subsection \<open>Dates\<close>

lemmas date_simps = check_date_def valid_times_def strptime_text_def directive_def digits_def
  nonzero_digits_def ascii_lower_def dec_def group_val_def days_in_month_def is_leap_def

lemma check_date_loop_iff:
  "check_date_loop v fmts = list_ex (\<lambda>fmt. \<exists>dt. strptime v fmt = Inr dt) fmts"
  by (induction fmts) (auto split: sum.splits)

lemma check_date_examples_pass:
  "check_date (PUnicode ''2011-12-19'') = no_defect"
  "check_date (PUnicode ''2011-12-19T19:00'') = no_defect"
  "check_date (PUnicode ''2011-12-19T19:00:00'') = no_defect"
  "check_date (PUnicode ''2011-12-19T19:00:00.123456'') = no_defect"
  by (simp_all add: date_simps)

lemma check_date_examples_fail:
  "check_date (PUnicode ''19 Dec 2011'') = Msg ''Timestamp does not appear to be ISO 8601'' []"
  "check_date (PUnicode ''2011/12/19'') = Msg ''Timestamp does not appear to be ISO 8601'' []"
  by (simp_all add: date_simps)

text \<open>
  C6, amended. The date rule of the flat encoding and the creation-date rule of the
  hierarchical encoding return the result of \<^verbatim>\<open>_check_date\<close> on the value of the field. A
  value passes exactly when \<^verbatim>\<open>datetime.strptime\<close> parses it under one of the formats
  \<^verbatim>\<open>%Y-%m-%d\<close>, \<^verbatim>\<open>%Y-%m-%dT%H:%M\<close>, \<^verbatim>\<open>%Y-%m-%dT%H:%M:%S\<close>, \<^verbatim>\<open>%Y-%m-%dT%H:%M:%S.%f\<close> (the loop
  stops at the first one that does); otherwise the defect is the timestamp message. The
  four dates of the claim pass, \<^verbatim>\<open>19 Dec 2011\<close> and \<^verbatim>\<open>2011/12/19\<close> produce the defect.
\<close>

theorem date_rule_passes_iff_a_format_parses:
  "(map_of t ''date'' = Some v \<longrightarrow> valid_datetime t = Inr (check_date v))
   \<and> (map_of (attrs h) ''creation-date'' = Some v \<longrightarrow> valid_creation_date h = Inr (check_date v))
   \<and> (check_date v = no_defect \<longleftrightarrow> (\<exists>fmt \<in> set valid_times. \<exists>dt. strptime v fmt = Inr dt))
   \<and> (check_date v \<noteq> no_defect \<longleftrightarrow>
        check_date v = Msg ''Timestamp does not appear to be ISO 8601'' [])
   \<and> check_date (PUnicode ''2011-12-19'') = no_defect
   \<and> check_date (PUnicode ''2011-12-19T19:00'') = no_defect
   \<and> check_date (PUnicode ''2011-12-19T19:00:00'') = no_defect
   \<and> check_date (PUnicode ''2011-12-19T19:00:00.123456'') = no_defect
   \<and> check_date (PUnicode ''19 Dec 2011'') \<noteq> no_defect
   \<and> check_date (PUnicode ''2011/12/19'') \<noteq> no_defect"
proof -
  have rules: "map_of t ''date'' = Some v \<longrightarrow> valid_datetime t = Inr (check_date v)"
    "map_of (attrs h) ''creation-date'' = Some v \<longrightarrow> valid_creation_date h = Inr (check_date v)"
    by (simp_all add: valid_datetime_def valid_creation_date_def getitem_def)
  have iff: "check_date v = no_defect \<longleftrightarrow> (\<exists>fmt \<in> set valid_times. \<exists>dt. strptime v fmt = Inr dt)"
    by (simp add: check_date_def check_date_loop_iff list_ex_iff no_defect_def)
  have msg: "check_date v \<noteq> no_defect \<longleftrightarrow>
        check_date v = Msg ''Timestamp does not appear to be ISO 8601'' []"
    by (simp add: check_date_def no_defect_def)
  have bad: "check_date (PUnicode ''19 Dec 2011'') \<noteq> no_defect"
    "check_date (PUnicode ''2011/12/19'') \<noteq> no_defect"
    by (simp_all add: check_date_examples_fail no_defect_def)
  from rules iff msg bad check_date_examples_pass show ?thesis by blast
qed

theorem date_rule_passes_iff_a_format_parses_witness:
  "valid_datetime [(''date'', PUnicode ''2011-12-19T19:00:00'')] = Inr no_defect
   \<and> valid_creation_date \<lparr>attrs = [(''creation-date'', PUnicode ''2011-12-19T19:00:00'')], members = []\<rparr>
       = Inr no_defect
   \<and> (\<exists>fmt \<in> set valid_times. \<exists>dt. strptime (PUnicode ''2011-12-19T19:00:00'') fmt = Inr dt)"
proof -
  have e: "check_date (PUnicode ''2011-12-19T19:00:00'') = no_defect"
    by (rule check_date_examples_pass)
  show ?thesis
    using date_rule_passes_iff_a_format_parses
      [of "[(''date'', PUnicode ''2011-12-19T19:00:00'')]" "PUnicode ''2011-12-19T19:00:00''"
          "\<lparr>attrs = [(''creation-date'', PUnicode ''2011-12-19T19:00:00'')], members = []\<rparr>"]
    by (simp add: e)
qed

text \<open>
  C6, as stated, fails: \<^verbatim>\<open>strptime\<close> takes a month and a day of one digit, so the text
  \<^verbatim>\<open>2011-1-9\<close> passes although it matches none of the four patterns as written.
\<close>

theorem unpadded_date_passes_counterexample:
  "check_date (PUnicode ''2011-1-9'') = no_defect
   \<and> \<not> list_ex (\<lambda>p. matches_pattern p ''2011-1-9'') spec_date_patterns"
  by (simp add: date_simps spec_date_patterns_def digits_def)

subsection \<open>Evaluation of the rules on a given document\<close>

lemmas prim_simps = getitem_def has_key_def py_unpack2_def py_unpack3_def is_int_def no_defect_def apos_def
  in_names_def element_type_def ElementTypes_def MatrixTypes_def TableTypes_def FormatURL_def
  lower_def lower_char_def ne_int_def int_gt_def char_of_def bit_Suc_0_iff
lemmas rule_simps = valid_format_def valid_format_url_def valid_type_def valid_rows_def valid_columns_def
  valid_entries_def entry_keys_def valid_id_def valid_metadata_def valid_shape_def valid_data_def
  valid_sparse_data_def valid_dense_data_def valid_matrix_type_def valid_matrix_element_type_def
  valid_generated_by_def valid_nullable_id_def valid_datetime_def
lemmas driver_simps = validate_json_def required_keys_def len_differs_def append_line_def invalid_def

lemmas hdf5_rule_simps = valid_nnz_def valid_hdf5_format_version_def valid_creation_date_def
  version_accepted_def HDF5FormatVersions_def
lemmas hdf5_driver_simps = validate_hdf5_def required_attrs_def required_groups_def
  required_datasets_def h5_contains_def h5_get_def append_line_def invalid_def
lemmas example_simps = example_table_def example_hdf5_def entry_def del_key_def set_key_def
  del_attr_def del_dataset_def

lemma example_table_valid:
  "validate_json ''1.0.0'' False example_table = Inr \<lparr>valid_table = True, report_lines = []\<rparr>"
  by (simp add: example_simps rule_simps prim_simps driver_simps check_date_examples_pass)

lemma example_hdf5_valid:
  "validate_hdf5 False example_hdf5 = Inr \<lparr>valid_table = True, report_lines = []\<rparr>"
  by (simp add: example_simps rule_simps hdf5_rule_simps prim_simps hdf5_driver_simps
      check_date_examples_pass)

subsection \<open>The shape rule\<close>

lemma is_int_iff: "is_int a \<longleftrightarrow> (\<exists>n. a = PInt n) \<or> (\<exists>c. a = PBool c)"
  by (cases a) (simp_all add: is_int_def)

lemma py_unpack2_iff: "py_unpack2 v = Inr (a, b) \<longleftrightarrow> py_iter v = Inr [a, b]"
  by (auto simp: py_unpack2_def split: sum.splits list.splits)

text \<open>
  C5, as stated, fails: the shape rule accepts a pair that holds a negative integer.
\<close>

theorem shape_rule_accepts_negative_counterexample:
  "valid_shape (Json [(''shape'', PList [PInt (- 1), PInt 2])]) = Inr no_defect"
  by (simp add: valid_shape_def py_unpack2_def is_int_def)

text \<open>
  C5, amended. The shape rule returns no defect exactly when the value of \<^verbatim>\<open>shape\<close> yields
  two elements that are both integer-typed, that is of class \<^verbatim>\<open>int\<close> or its subclass
  \<^verbatim>\<open>bool\<close>, whatever their sign; a float or a \<^verbatim>\<open>long\<close> of integer value is not accepted.
\<close>

theorem shape_rule_accepts_iff_two_int_typed:
  "valid_shape tb = Inr no_defect \<longleftrightarrow>
     (\<exists>a b. py_iter (json_or_hdf5_get tb ''shape'') = Inr [a, b]
        \<and> ((\<exists>n. a = PInt n) \<or> (\<exists>c. a = PBool c))
        \<and> ((\<exists>n. b = PInt n) \<or> (\<exists>c. b = PBool c)))"
proof -
  have "valid_shape tb = Inr no_defect \<longleftrightarrow>
     (\<exists>a b. py_unpack2 (json_or_hdf5_get tb ''shape'') = Inr (a, b) \<and> is_int a \<and> is_int b)"
    by (auto simp: valid_shape_def no_defect_def apos_def split: sum.splits)
  then show ?thesis
    by (simp add: py_unpack2_iff is_int_iff)
qed

theorem shape_rule_accepts_iff_two_int_typed_witness:
  "valid_shape (Json [(''shape'', PList [PInt 2, PInt 1])]) = Inr no_defect
   \<and> valid_shape (Json [(''shape'', PList [PInt 2, PFloat (Fin 1)])]) \<noteq> Inr no_defect
   \<and> valid_shape (Json [(''shape'', PList [PLong 2, PInt 1])]) \<noteq> Inr no_defect"
  using shape_rule_accepts_iff_two_int_typed [of "Json [(''shape'', PList [PInt 2, PInt 1])]"]
    shape_rule_accepts_iff_two_int_typed [of "Json [(''shape'', PList [PInt 2, PFloat (Fin 1)])]"]
    shape_rule_accepts_iff_two_int_typed [of "Json [(''shape'', PList [PLong 2, PInt 1])]"]
  by simp

subsection \<open>The matrix type\<close>

lemma lower_sparse: "lower ''sparse'' = ''sparse''" "lower ''dense'' = ''dense''"
  by (simp_all add: lower_def lower_char_def)

text \<open>
  C9. When \<^verbatim>\<open>matrix_type\<close> is a spelling of \<^verbatim>\<open>sparse\<close> or \<^verbatim>\<open>dense\<close> that is not all lower
  case, the matrix-type rule reports \<^verbatim>\<open>Unknown 'matrix_type'\<close> (its membership test is
  case-sensitive) and the data rule still returns what the sparse, respectively dense,
  validation of the content returns (its dispatch lowers the value first).
\<close>

theorem mixed_case_matrix_type_defect_and_dispatch:
  assumes "map_of t ''matrix_type'' = Some (PUnicode s)"
    and "s \<noteq> lower s"
    and "lower s = ''sparse'' \<or> lower s = ''dense''"
  shows "valid_matrix_type t = Inr (Msg (''Unknown 'matrix_type'' @ apos) [])
         \<and> valid_data t = (if lower s = ''sparse'' then valid_sparse_data t else valid_dense_data t)"
proof -
  from assms(2) have "s \<noteq> ''sparse''" "s \<noteq> ''dense''"
    using lower_sparse by auto
  with assms(1) have "valid_matrix_type t = Inr (Msg (''Unknown 'matrix_type'' @ apos) [])"
    by (simp add: valid_matrix_type_def getitem_def in_names_def MatrixTypes_def)
  moreover from assms(1,3)
  have "valid_data t = (if lower s = ''sparse'' then valid_sparse_data t else valid_dense_data t)"
    by (auto simp: valid_data_def getitem_def)
  ultimately show ?thesis by simp
qed
theorem mixed_case_matrix_type_defect_and_dispatch_witness:
  "valid_matrix_type (set_key ''matrix_type'' (PUnicode ''Sparse'')
      (set_key ''data'' (PList [PList [PInt 5, PInt 0, PInt 1]]) example_table))
     = Inr (Msg (''Unknown 'matrix_type'' @ apos) [])
   \<and> valid_data (set_key ''matrix_type'' (PUnicode ''Sparse'')
      (set_key ''data'' (PList [PList [PInt 5, PInt 0, PInt 1]]) example_table))
     = Inr (Msg ''x out of bounds at idx %d: %s'' [AInt 0, ARepr (PList [PInt 5, PInt 0, PInt 1])])
   \<and> validate_json ''1.0.0'' False (set_key ''matrix_type'' (PUnicode ''Sparse'')
      (set_key ''data'' (PList [PList [PInt 5, PInt 0, PInt 1]]) example_table))
     = Inr \<lparr>valid_table = False, report_lines =
         [Msg ''x out of bounds at idx %d: %s'' [AInt 0, ARepr (PList [PInt 5, PInt 0, PInt 1])],
          Msg (''Unknown 'matrix_type'' @ apos) []]\<rparr>"
proof -
  let ?t = "set_key ''matrix_type'' (PUnicode ''Sparse'')
      (set_key ''data'' (PList [PList [PInt 5, PInt 0, PInt 1]]) example_table)"
  have 1: "map_of ?t ''matrix_type'' = Some (PUnicode ''Sparse'')"
    by (simp add: example_simps)
  have 2: "lower ''Sparse'' = ''sparse''"
    by (simp add: lower_def lower_char_def char_of_def bit_Suc_0_iff)
  have 3: "valid_sparse_data ?t
     = Inr (Msg ''x out of bounds at idx %d: %s'' [AInt 0, ARepr (PList [PInt 5, PInt 0, PInt 1])])"
    by (simp add: example_simps valid_sparse_data_def prim_simps)
  have 4: "validate_json ''1.0.0'' False ?t
     = Inr \<lparr>valid_table = False, report_lines =
         [Msg ''x out of bounds at idx %d: %s'' [AInt 0, ARepr (PList [PInt 5, PInt 0, PInt 1])],
          Msg (''Unknown 'matrix_type'' @ apos) []]\<rparr>"
    by (simp add: example_simps rule_simps prim_simps driver_simps check_date_examples_pass)
  show ?thesis
    using mixed_case_matrix_type_defect_and_dispatch [of ?t "''Sparse''"] 1 2 3 4
    by simp
qed

subsection \<open>Booleans are integers\<close>

lemma int_gt_PInt [simp]: "int_gt x (PInt n) \<longleftrightarrow> n < x"
  by (simp add: int_gt_def)

text \<open>
  C10. \<^verbatim>\<open>_is_int\<close> accepts a boolean. Hence a shape made of two booleans passes the shape
  rule; a sparse entry whose row (column) index is \<^verbatim>\<open>True\<close> passes the integer-type check
  and is then subject to the bounds checks only, with \<^verbatim>\<open>True\<close> counting as 1; and a
  boolean \<^verbatim>\<open>nnz\<close> passes the nnz rule.
\<close>

theorem booleans_pass_integer_checks:
  "is_int (PBool b)
   \<and> (json_or_hdf5_get tb ''shape'' = PList [PBool b1, PBool b2] \<longrightarrow> valid_shape tb = Inr no_defect)
   \<and> (is_int y \<and> isinstance v dtype \<and> \<not> int_gt 1 n_rows \<and> 0 \<le> py_int y \<and> \<not> int_gt (py_int y) n_cols \<longrightarrow>
        sparse_loop dtype n_rows n_cols idx (PList [PBool True, y, v] # rest)
        = sparse_loop dtype n_rows n_cols (Suc idx) rest)
   \<and> (is_int y \<and> isinstance v dtype \<and> int_gt 1 n_rows \<longrightarrow>
        sparse_loop dtype n_rows n_cols idx (PList [PBool True, y, v] # rest)
        = Msg ''x out of bounds at idx %d: %s'' [AInt (int idx), ARepr (PList [PBool True, y, v])])
   \<and> (is_int x \<and> isinstance v dtype \<and> 0 \<le> py_int x \<and> \<not> int_gt (py_int x) n_rows \<and> \<not> int_gt 1 n_cols \<longrightarrow>
        sparse_loop dtype n_rows n_cols idx (PList [x, PBool True, v] # rest)
        = sparse_loop dtype n_rows n_cols (Suc idx) rest)
   \<and> (is_int x \<and> isinstance v dtype \<and> 0 \<le> py_int x \<and> \<not> int_gt (py_int x) n_rows \<and> int_gt 1 n_cols \<longrightarrow>
        sparse_loop dtype n_rows n_cols idx (PList [x, PBool True, v] # rest)
        = Msg ''y out of bounds at idx %d: %s'' [AInt (int idx), ARepr (PList [x, PBool True, v])])
   \<and> (map_of (attrs h) ''nnz'' = Some (PBool b) \<longrightarrow> valid_nnz h = Inr no_defect)"
  by (simp add: is_int_def valid_shape_def py_unpack2_def py_unpack3_def valid_nnz_def getitem_def)

theorem booleans_pass_integer_checks_witness:
  "valid_shape (Json (set_key ''shape'' (PList [PBool True, PBool True]) example_table)) = Inr no_defect
   \<and> valid_sparse_data (set_key ''data'' (PList [PList [PBool True, PBool False, PInt 5]]) example_table)
       = Inr no_defect
   \<and> valid_sparse_data (set_key ''data'' (PList [PList [PBool False, PBool True, PInt 5]]) example_table)
       = Inr (Msg ''y out of bounds at idx %d: %s'' [AInt 0, ARepr (PList [PBool False, PBool True, PInt 5])])
   \<and> valid_nnz (example_hdf5\<lparr>attrs := set_key ''nnz'' (PBool True) (attrs example_hdf5)\<rparr>) = Inr no_defect"
proof -
  let ?t1 = "set_key ''data'' (PList [PList [PBool True, PBool False, PInt 5]]) example_table"
  let ?t2 = "set_key ''data'' (PList [PList [PBool False, PBool True, PInt 5]]) example_table"
  have s1: "valid_sparse_data ?t1 = Inr (sparse_loop TInt (PInt 1) (PInt 0) 0 [PList [PBool True, PBool False, PInt 5]])"
    by (simp add: example_simps valid_sparse_data_def getitem_def element_type_def ElementTypes_def py_unpack2_def)
  have s2: "valid_sparse_data ?t2 = Inr (sparse_loop TInt (PInt 1) (PInt 0) 0 [PList [PBool False, PBool True, PInt 5]])"
    by (simp add: example_simps valid_sparse_data_def getitem_def element_type_def ElementTypes_def py_unpack2_def)
  have g: "json_or_hdf5_get (Json (set_key ''shape'' (PList [PBool True, PBool True]) example_table)) ''shape''
      = PList [PBool True, PBool True]"
    by (simp add: example_simps)
  have n: "map_of (attrs (example_hdf5\<lparr>attrs := set_key ''nnz'' (PBool True) (attrs example_hdf5)\<rparr>)) ''nnz''
      = Some (PBool True)"
    by (simp add: example_simps)
  show ?thesis
    using booleans_pass_integer_checks
      [of True "Json (set_key ''shape'' (PList [PBool True, PBool True]) example_table)" True True
          "PBool False" "PInt 5" TInt "PInt 1" "PInt 0" 0 "[]" "PBool False"
          "example_hdf5\<lparr>attrs := set_key ''nnz'' (PBool True) (attrs example_hdf5)\<rparr>"]
      s1 s2 g n
    by (simp add: is_int_def)
qed

subsection \<open>Narrative mode and the verdict\<close>

lemma valid_table_append_line [simp]: "valid_table (append_line r m) = valid_table r"
  by (simp add: append_line_def)

lemma valid_table_invalid [simp]: "valid_table (invalid r) = False"
  by (simp add: invalid_def)

lemma json_keys_loop_verdict:
  "valid_table r = valid_table r' \<Longrightarrow>
   verdict (json_keys_loop True t ks r)
   = verdict (json_keys_loop False t ks r')"
proof (induction ks arbitrary: r r')
  case Nil
  then show ?case by simp
next
  case (Cons km ks)
  obtain key meth where km: "km = (key, meth)" by (cases km)
  show ?case
  proof (cases "has_key t key")
    case False
    then show ?thesis using Cons.IH [of "append_line (invalid r) _" "append_line (invalid r') _"]
      by (simp add: km)
  next
    case True
    show ?thesis
    proof (cases "meth t")
      case (Inl e)
      then show ?thesis using True by (simp add: km)
    next
      case (Inr status_msg)
      show ?thesis
      proof (cases "msg_len_pos status_msg")
        case pos: True
        have "verdict
                (json_keys_loop True t ks
                  (append_line (invalid (append_line r (Msg (''Validating '%s'...'') [ALit key]))) status_msg))
              = verdict (json_keys_loop False t ks (append_line (invalid r') status_msg))"
          by (rule Cons.IH) simp
        then show ?thesis using True Inr pos by (simp add: km)
      next
        case npos: False
        have "verdict
                (json_keys_loop True t ks (append_line r (Msg (''Validating '%s'...'') [ALit key])))
              = verdict (json_keys_loop False t ks r')"
          by (rule Cons.IH) (simp add: Cons.prems)
        then show ?thesis using True Inr npos by (simp add: km)
      qed
    qed
  qed
qed

lemma hdf5_attrs_loop_verdict:
  "valid_table r = valid_table r' \<Longrightarrow>
   verdict (hdf5_attrs_loop True h ks r)
   = verdict (hdf5_attrs_loop False h ks r')"
proof (induction ks arbitrary: r r')
  case Nil
  then show ?case by simp
next
  case (Cons km ks)
  obtain key meth where km: "km = (key, meth)" by (cases km)
  show ?case
  proof (cases "has_key (attrs h) key")
    case False
    then show ?thesis using Cons.IH [of "append_line (invalid r) _" "append_line (invalid r') _"]
      by (simp add: km)
  next
    case True
    show ?thesis
    proof (cases "meth h")
      case (Inl e)
      then show ?thesis using True by (simp add: km)
    next
      case (Inr status_msg)
      show ?thesis
      proof (cases "msg_len_pos status_msg")
        case pos: True
        have "verdict
                (hdf5_attrs_loop True h ks
                  (append_line (invalid (append_line r (Msg (''Validating '%s'...'') [ALit key]))) status_msg))
              = verdict (hdf5_attrs_loop False h ks (append_line (invalid r') status_msg))"
          by (rule Cons.IH) simp
        then show ?thesis using True Inr pos by (simp add: km)
      next
        case npos: False
        have "verdict
                (hdf5_attrs_loop True h ks (append_line r (Msg (''Validating '%s'...'') [ALit key])))
              = verdict (hdf5_attrs_loop False h ks r')"
          by (rule Cons.IH) (simp add: Cons.prems)
        then show ?thesis using True Inr npos by (simp add: km)
      qed
    qed
  qed
qed

lemma presence_loop_verdict:
  "valid_table r = valid_table r' \<Longrightarrow>
   valid_table (presence_loop True h fmt ps r) = valid_table (presence_loop False h fmt' ps r')"
  by (induction ps arbitrary: r r') simp_all

lemma verdict_cases:
  assumes "verdict x = verdict y"
  obtains (exc) e where "x = Inl e" "y = Inl e"
    | (rep) r r' where "x = Inr r" "y = Inr r'" "valid_table r = valid_table r'"
  using assms by (cases x; cases y) auto

lemma validate_json_verdict:
  "verdict (validate_json fv True t) = verdict (validate_json fv False t)"
proof -
  have "verdict
          (json_keys_loop True t (required_keys fv)
             (append_line \<lparr>valid_table = True, report_lines = []\<rparr> (Msg ''Validating BIOM table...'' [])))
        = verdict
          (json_keys_loop False t (required_keys fv) \<lparr>valid_table = True, report_lines = []\<rparr>)"
    by (rule json_keys_loop_verdict) simp
  then show ?thesis
  proof (cases rule: verdict_cases)
    case (exc e)
    then show ?thesis by (simp add: validate_json_def)
  next
    case (rep r r')
    then show ?thesis
      by (simp add: validate_json_def Let_def split: sum.splits)
  qed
qed

lemma validate_hdf5_verdict:
  "verdict (validate_hdf5 True h) = verdict (validate_hdf5 False h)"
proof -
  have "verdict
          (hdf5_attrs_loop True h required_attrs
             (append_line \<lparr>valid_table = True, report_lines = []\<rparr> (Msg ''Validating BIOM table...'' [])))
        = verdict
          (hdf5_attrs_loop False h required_attrs \<lparr>valid_table = True, report_lines = []\<rparr>)"
    by (rule hdf5_attrs_loop_verdict) simp
  then show ?thesis
  proof (cases rule: verdict_cases)
    case (exc e)
    then show ?thesis by (simp add: validate_hdf5_def)
  next
    case (rep r r')
    have g: "valid_table (presence_loop True h ''Missing dataset: %s'' required_datasets
                 (presence_loop True h ''Missing group: %s'' required_groups r))
         = valid_table (presence_loop False h ''Missing dataset: %s'' required_datasets
                 (presence_loop False h ''Missing group: %s'' required_groups r'))"
      by (intro presence_loop_verdict rep(3))
    show ?thesis using rep(1,2) g
      by (simp add: validate_hdf5_def Let_def split: sum.splits prod.splits)
  qed
qed

text \<open>
  C7. For every document and every configured format version, the run with narrative mode
  enabled and the run with it disabled raise the same exception or return the same
  verdict, in the flat and in the hierarchical encoding.
\<close>

theorem narrative_mode_never_changes_verdict:
  "verdict (validate_json fv True t) = verdict (validate_json fv False t)
   \<and> verdict (validate_hdf5 True h) = verdict (validate_hdf5 False h)"
  by (simp add: validate_json_verdict validate_hdf5_verdict)

theorem narrative_mode_never_changes_verdict_witness:
  "verdict (validate_json ''1.0.0'' True example_table) = Inr True
   \<and> verdict (validate_hdf5 True example_hdf5) = Inr True
   \<and> verdict (validate_json ''1.0.0'' True (set_key ''type'' (PInt 5) example_table))
       = Inl AttributeError"
proof -
  have "validate_json ''1.0.0'' False (set_key ''type'' (PInt 5) example_table) = Inl AttributeError"
    by (simp add: example_simps rule_simps prim_simps driver_simps)
  then show ?thesis
    using narrative_mode_never_changes_verdict [of "''1.0.0''" example_table example_hdf5]
      narrative_mode_never_changes_verdict
        [of "''1.0.0''" "set_key ''type'' (PInt 5) example_table" example_hdf5]
      example_table_valid example_hdf5_valid
    by simp
qed

subsection \<open>Sparse data\<close>

lemma sparse_entry_okE:
  assumes "sparse_entry_ok dtype r c coord"
  obtains x y v where "coord = PList [x, y, v]" "is_int x" "is_int y" "isinstance v dtype"
    "in_bounds (py_int x) r" "in_bounds (py_int y) c"
  using assms by (auto simp: sparse_entry_ok_def split: pyval.splits list.splits)

lemma sparse_loop_skips_ok:
  "list_all (sparse_entry_ok dtype r c) pre \<Longrightarrow>
   sparse_loop dtype (PInt (r - 1)) (PInt (c - 1)) idx (pre @ rest)
   = sparse_loop dtype (PInt (r - 1)) (PInt (c - 1)) (idx + length pre) rest"
proof (induction pre arbitrary: idx)
  case Nil
  then show ?case by simp
next
  case (Cons coord pre)
  from Cons.prems have ok: "sparse_entry_ok dtype r c coord"
    and rest: "list_all (sparse_entry_ok dtype r c) pre" by simp_all
  from ok obtain x y v where c: "coord = PList [x, y, v]" "is_int x" "is_int y" "isinstance v dtype"
    "in_bounds (py_int x) r" "in_bounds (py_int y) c"
    by (rule sparse_entry_okE)
  then have "sparse_loop dtype (PInt (r - 1)) (PInt (c - 1)) idx ((coord # pre) @ rest)
     = sparse_loop dtype (PInt (r - 1)) (PInt (c - 1)) (Suc idx) (pre @ rest)"
    by (simp add: py_unpack3_def in_bounds_def)
  with Cons.IH [OF rest, of "Suc idx"] show ?case by simp
qed

lemma valid_sparse_data_int_shape:
  assumes "map_of t ''matrix_element_type'' = Some (PUnicode name)"
    and "map_of ElementTypes name = Some dtype"
    and "map_of t ''shape'' = Some (PList [PInt r, PInt c])"
    and "map_of t ''data'' = Some (PList coords)"
  shows "valid_sparse_data t = Inr (sparse_loop dtype (PInt (r - 1)) (PInt (c - 1)) 0 coords)"
  using assms by (simp add: valid_sparse_data_def getitem_def element_type_def py_unpack2_def)

text \<open>
  C3, amended. In a sparse table with an integer shape \<open>(r, c)\<close>, let the entry \<open>(x, y, v)\<close>
  with integer-typed \<open>x\<close> and \<open>y\<close> be the first one that violates something (every entry
  before it passes). If \<open>v\<close> is not of the declared element type, the result is the
  value-type defect, whatever the indices are. If \<open>v\<close> is of that type and \<open>x\<close> lies
  outside \<open>[0, r - 1]\<close>, the result is the x-bounds defect; if \<open>x\<close> is inside and \<open>y\<close> lies
  outside \<open>[0, c - 1]\<close>, it is the y-bounds defect. Each of them carries the index and
  the content of that entry, and no later entry is examined.
\<close>

theorem sparse_first_violation:
  assumes "map_of t ''matrix_element_type'' = Some (PUnicode name)"
    and "map_of ElementTypes name = Some dtype"
    and "map_of t ''shape'' = Some (PList [PInt r, PInt c])"
    and "map_of t ''data'' = Some (PList (pre @ PList [x, y, v] # post))"
    and "list_all (sparse_entry_ok dtype r c) pre"
    and "is_int x" and "is_int y"
  shows "(\<not> isinstance v dtype \<longrightarrow>
            valid_sparse_data t = Inr (Msg ''Bad value at idx %d: %s''
                                        [AInt (int (length pre)), ARepr (PList [x, y, v])]))
       \<and> (isinstance v dtype \<and> \<not> in_bounds (py_int x) r \<longrightarrow>
            valid_sparse_data t = Inr (Msg ''x out of bounds at idx %d: %s''
                                        [AInt (int (length pre)), ARepr (PList [x, y, v])]))
       \<and> (isinstance v dtype \<and> in_bounds (py_int x) r \<and> \<not> in_bounds (py_int y) c \<longrightarrow>
            valid_sparse_data t = Inr (Msg ''y out of bounds at idx %d: %s''
                                        [AInt (int (length pre)), ARepr (PList [x, y, v])]))"
proof -
  have "valid_sparse_data t
      = Inr (sparse_loop dtype (PInt (r - 1)) (PInt (c - 1)) (length pre) (PList [x, y, v] # post))"
    using valid_sparse_data_int_shape [OF assms(1-4)] sparse_loop_skips_ok [OF assms(5), of 0]
    by simp
  then show ?thesis
    using assms(6,7) by (auto simp: py_unpack3_def in_bounds_def)
qed

text \<open>
  C3, as stated, fails: in a table of shape \<open>(2, 1)\<close> and element type \<^verbatim>\<open>int\<close> the entry
  \<open>(5, 0, 'a')\<close> has its row index out of bounds, and the only defect produced is the
  value-type defect.
\<close>

theorem sparse_bounds_defect_counterexample:
  "\<not> in_bounds 5 2
   \<and> valid_sparse_data (set_key ''data'' (PList [PList [PInt 5, PInt 0, PUnicode ''a'']]) example_table)
       = Inr (Msg ''Bad value at idx %d: %s'' [AInt 0, ARepr (PList [PInt 5, PInt 0, PUnicode ''a''])])"
  by (simp add: in_bounds_def example_simps valid_sparse_data_def prim_simps)

theorem sparse_first_violation_witness:
  "valid_sparse_data
     (set_key ''data'' (PList [PList [PInt 0, PInt 0, PInt 5], PList [PInt 5, PInt 0, PInt 1],
                               PList [PInt 0, PInt 9, PInt 1]]) example_table)
   = Inr (Msg ''x out of bounds at idx %d: %s'' [AInt 1, ARepr (PList [PInt 5, PInt 0, PInt 1])])"
proof -
  let ?t = "set_key ''data'' (PList [PList [PInt 0, PInt 0, PInt 5], PList [PInt 5, PInt 0, PInt 1],
                               PList [PInt 0, PInt 9, PInt 1]]) example_table"
  have 1: "map_of ?t ''matrix_element_type'' = Some (PUnicode ''int'')"
    and 2: "map_of ElementTypes ''int'' = Some TInt"
    and 3: "map_of ?t ''shape'' = Some (PList [PInt 2, PInt 1])"
    and 4: "map_of ?t ''data'' = Some (PList ([PList [PInt 0, PInt 0, PInt 5]] @ PList [PInt 5, PInt 0, PInt 1]
                               # [PList [PInt 0, PInt 9, PInt 1]]))"
    by (simp_all add: example_simps ElementTypes_def)
  have 5: "list_all (sparse_entry_ok TInt 2 1) [PList [PInt 0, PInt 0, PInt 5]]"
    by (simp add: sparse_entry_ok_def is_int_def in_bounds_def)
  have 6: "is_int (PInt 5)" "is_int (PInt 0)" by (simp_all add: is_int_def)
  show ?thesis
    using sparse_first_violation [OF 1 2 3 4 5 6]
    by (simp add: in_bounds_def)
qed

subsection \<open>Dense data\<close>

lemma ne_int_PInt [simp]: "ne_int n (PInt c) \<longleftrightarrow> n \<noteq> c"
  by (simp add: ne_int_def)

lemma foldl_conj_map: "foldl (\<and>) b (map f vs) = (b \<and> list_all f vs)"
  by (induction vs arbitrary: b) auto

lemma reduce_and_map: "vs \<noteq> [] \<Longrightarrow> reduce_and (map f vs) = Inr (list_all f vs)"
  by (cases vs) (simp_all add: foldl_conj_map)

lemma dense_loop_skips_ok:
  "list_all (dense_row_ok dtype c) pre \<Longrightarrow>
   dense_loop dtype (PInt c) (pre @ rest) = dense_loop dtype (PInt c) rest"
proof (induction pre)
  case Nil
  then show ?case by simp
next
  case (Cons row pre)
  from Cons.prems obtain vs where "row = PList vs" "int (length vs) = c" "vs \<noteq> []"
    "list_all (\<lambda>v. isinstance v dtype) vs"
    by (auto simp: dense_row_ok_def split: pyval.splits)
  with Cons show ?case by (simp add: reduce_and_map)
qed

lemma valid_dense_data_int_shape:
  assumes "map_of t ''matrix_element_type'' = Some (PUnicode name)"
    and "map_of ElementTypes name = Some dtype"
    and "map_of t ''shape'' = Some (PList [PInt r, PInt c])"
    and "map_of t ''data'' = Some (PList rows)"
  shows "valid_dense_data t =
     (case dense_loop dtype (PInt c) rows of Inl e \<Rightarrow> Inl e
      | Inr (Some m) \<Rightarrow> Inr m
      | Inr None \<Rightarrow> if int (length rows) \<noteq> r then Inr (Msg ''Incorrect number of rows in matrix'' [])
                     else Inr no_defect)"
  using assms
  by (simp add: valid_dense_data_def getitem_def element_type_def py_unpack2_def
      split: sum.splits option.splits)

text \<open>
  C4, amended. In a dense table with an integer shape \<open>(r, c)\<close>: the first row (a list)
  that has not exactly \<open>c\<close> entries, every row before it passing, gives the defect
  \<^verbatim>\<open>Incorrect number of cols\<close> with the content of that row; the first non-empty row with
  \<open>c\<close> entries one of which is not of the element type gives \<^verbatim>\<open>Bad datatype in row\<close> with
  its content; and when every row passes, the result is the row-count defect if the
  number of rows differs from \<open>r\<close>, and no defect otherwise. The row-count defect is
  returned only when no row has failed.
\<close>

theorem dense_first_violation_else_row_count:
  assumes "map_of t ''matrix_element_type'' = Some (PUnicode name)"
    and "map_of ElementTypes name = Some dtype"
    and "map_of t ''shape'' = Some (PList [PInt r, PInt c])"
    and "map_of t ''data'' = Some (PList rows)"
  shows "(rows = pre @ PList vs # post \<and> list_all (dense_row_ok dtype c) pre
            \<and> int (length vs) \<noteq> c \<longrightarrow>
          valid_dense_data t = Inr (Msg ''Incorrect number of cols: %s'' [ARepr (PList vs)]))
       \<and> (rows = pre @ PList vs # post \<and> list_all (dense_row_ok dtype c) pre
            \<and> int (length vs) = c \<and> vs \<noteq> [] \<and> \<not> list_all (\<lambda>v. isinstance v dtype) vs \<longrightarrow>
          valid_dense_data t = Inr (Msg ''Bad datatype in row: %s'' [ARepr (PList vs)]))
       \<and> (list_all (dense_row_ok dtype c) rows \<longrightarrow>
          valid_dense_data t =
            Inr (if int (length rows) \<noteq> r then Msg ''Incorrect number of rows in matrix'' []
                 else no_defect))"
proof -
  note vd = valid_dense_data_int_shape [OF assms]
  have a: "valid_dense_data t = Inr (Msg ''Incorrect number of cols: %s'' [ARepr (PList vs)])"
    if "rows = pre @ PList vs # post" "list_all (dense_row_ok dtype c) pre" "int (length vs) \<noteq> c"
    using that vd dense_loop_skips_ok [of dtype c pre "PList vs # post"] by simp
  have b: "valid_dense_data t = Inr (Msg ''Bad datatype in row: %s'' [ARepr (PList vs)])"
    if "rows = pre @ PList vs # post" "list_all (dense_row_ok dtype c) pre" "int (length vs) = c"
      "vs \<noteq> []" "\<not> list_all (\<lambda>v. isinstance v dtype) vs"
    using that vd dense_loop_skips_ok [of dtype c pre "PList vs # post"]
    by (simp add: reduce_and_map)
  have c: "valid_dense_data t =
            Inr (if int (length rows) \<noteq> r then Msg ''Incorrect number of rows in matrix'' []
                 else no_defect)"
    if "list_all (dense_row_ok dtype c) rows"
    using that vd dense_loop_skips_ok [of dtype c rows "[]"] by simp
  from a b c show ?thesis by blast
qed

text \<open>
  C4, as stated, fails: with shape \<open>(2, 1)\<close> and the single row \<open>[1, 2]\<close>, the row has the
  wrong number of columns and the matrix the wrong number of rows; the data rule returns
  the column defect alone and the report of the whole run has no line about the number
  of rows in the matrix.
\<close>

theorem dense_row_count_not_reported_counterexample:
  "valid_dense_data (set_key ''matrix_type'' (PUnicode ''dense'')
      (set_key ''data'' (PList [PList [PInt 1, PInt 2]]) example_table))
     = Inr (Msg ''Incorrect number of cols: %s'' [ARepr (PList [PInt 1, PInt 2])])
   \<and> validate_json ''1.0.0'' False (set_key ''matrix_type'' (PUnicode ''dense'')
      (set_key ''data'' (PList [PList [PInt 1, PInt 2]]) example_table))
     = Inr \<lparr>valid_table = False, report_lines =
         [Msg ''Incorrect number of cols: %s'' [ARepr (PList [PInt 1, PInt 2])]]\<rparr>"
  by (simp add: example_simps rule_simps prim_simps driver_simps check_date_examples_pass)

theorem dense_first_violation_else_row_count_witness:
  "valid_dense_data (set_key ''matrix_type'' (PUnicode ''dense'')
      (set_key ''data'' (PList [PList [PInt 1]]) example_table))
     = Inr (Msg ''Incorrect number of rows in matrix'' [])
   \<and> valid_dense_data (set_key ''matrix_type'' (PUnicode ''dense'')
      (set_key ''data'' (PList [PList [PInt 1], PList [PUnicode ''a''], PList []]) example_table))
     = Inr (Msg ''Bad datatype in row: %s'' [ARepr (PList [PUnicode ''a''])])
   \<and> valid_dense_data (set_key ''matrix_type'' (PUnicode ''dense'')
      (set_key ''data'' (PList [PList [PInt 1], PList [PInt 1, PInt 2], PList []]) example_table))
     = Inr (Msg ''Incorrect number of cols: %s'' [ARepr (PList [PInt 1, PInt 2])])"
proof -
  let ?t1 = "set_key ''matrix_type'' (PUnicode ''dense'')
      (set_key ''data'' (PList [PList [PInt 1]]) example_table)"
  let ?t2 = "set_key ''matrix_type'' (PUnicode ''dense'')
      (set_key ''data'' (PList [PList [PInt 1], PList [PUnicode ''a''], PList []]) example_table)"
  let ?t3 = "set_key ''matrix_type'' (PUnicode ''dense'')
      (set_key ''data'' (PList [PList [PInt 1], PList [PInt 1, PInt 2], PList []]) example_table)"
  have e: "map_of ElementTypes ''int'' = Some TInt" by (simp add: ElementTypes_def)
  have t1: "map_of ?t1 ''matrix_element_type'' = Some (PUnicode ''int'')"
    "map_of ?t1 ''shape'' = Some (PList [PInt 2, PInt 1])"
    "map_of ?t1 ''data'' = Some (PList [PList [PInt 1]])"
    by (simp_all add: example_simps)
  have t2: "map_of ?t2 ''matrix_element_type'' = Some (PUnicode ''int'')"
    "map_of ?t2 ''shape'' = Some (PList [PInt 2, PInt 1])"
    "map_of ?t2 ''data'' = Some (PList [PList [PInt 1], PList [PUnicode ''a''], PList []])"
    by (simp_all add: example_simps)
  have t3: "map_of ?t3 ''matrix_element_type'' = Some (PUnicode ''int'')"
    "map_of ?t3 ''shape'' = Some (PList [PInt 2, PInt 1])"
    "map_of ?t3 ''data'' = Some (PList [PList [PInt 1], PList [PInt 1, PInt 2], PList []])"
    by (simp_all add: example_simps)
  have ok: "list_all (dense_row_ok TInt 1) [PList [PInt 1]]"
    by (simp add: dense_row_ok_def)
  show ?thesis
    using dense_first_violation_else_row_count [OF t1(1) e t1(2,3), of "[]" "[]" "[]"]
      dense_first_violation_else_row_count
        [OF t2(1) e t2(2,3), of "[PList [PInt 1]]" "[PUnicode ''a'']" "[PList []]"]
      dense_first_violation_else_row_count
        [OF t3(1) e t3(2,3), of "[PList [PInt 1]]" "[PInt 1, PInt 2]" "[PList []]"]
      ok
    by simp
qed


subsection \<open>Rows and columns\<close>

lemma check_entry_ok: "axis_entry_ok e \<Longrightarrow> check_entry fmt idx e entry_keys = Inr None"
  by (auto simp: axis_entry_ok_def entry_keys_def valid_id_def valid_metadata_def has_key_def
      getitem_def no_defect_def split: pyval.splits option.splits)

lemma entries_loop_skips_ok:
  "list_all axis_entry_ok pre \<Longrightarrow>
   entries_loop fmt entry_keys idx (pre @ rest) = entries_loop fmt entry_keys (idx + length pre) rest"
  by (induction pre arbitrary: idx) (simp_all add: check_entry_ok)

lemma valid_entries_list:
  assumes "map_of t ''type'' = Some (PUnicode ty)" and "map_of t field = Some (PList es)"
  shows "valid_entries field fmt t = entries_loop fmt entry_keys 0 es"
  using assms by (simp add: valid_entries_def getitem_def)

lemma entries_loop_first_violation:
  assumes "list_all axis_entry_ok pre"
  shows "(map_of d ''id'' = None \<longrightarrow>
            entries_loop fmt entry_keys 0 (pre @ PDict d # post)
            = Inr (Msg fmt [AInt (int (length pre)), ALit ''id'']))
       \<and> (\<forall>i. map_of d ''id'' = Some i \<and> \<not> truthy i \<longrightarrow>
            entries_loop fmt entry_keys 0 (pre @ PDict d # post)
            = Inr (Msg (apos @ ''id' in %s appears empty'') [AStr (PDict d)]))
       \<and> (\<forall>i. map_of d ''id'' = Some i \<and> truthy i \<and> map_of d ''metadata'' = None \<longrightarrow>
            entries_loop fmt entry_keys 0 (pre @ PDict d # post)
            = Inr (Msg fmt [AInt (int (length pre)), ALit ''metadata'']))
       \<and> (\<forall>i m. map_of d ''id'' = Some i \<and> truthy i \<and> map_of d ''metadata'' = Some m
                  \<and> m \<noteq> PNone \<and> (\<forall>md. m \<noteq> PDict md) \<longrightarrow>
            entries_loop fmt entry_keys 0 (pre @ PDict d # post)
            = Inr (Msg ''metadata is neither null or an object'' []))"
  using entries_loop_skips_ok [OF assms, of fmt 0 "PDict d # post"]
  by (auto simp: entry_keys_def valid_id_def valid_metadata_def has_key_def getitem_def
      no_defect_def apos_def split: pyval.splits)

text \<open>
  C8, amended. In the rows rule (and likewise the columns rule, with \<^verbatim>\<open>COL\<close> for \<^verbatim>\<open>ROW\<close>),
  let a mapping \<open>d\<close> be the first entry that violates something. If \<open>d\<close> has no \<^verbatim>\<open>id\<close>, or
  a non-empty \<^verbatim>\<open>id\<close> and no \<^verbatim>\<open>metadata\<close>, the message names the index of the entry and
  the missing key. If its \<^verbatim>\<open>id\<close> is empty, the message names the field \<^verbatim>\<open>id\<close> and shows
  the content of the entry, not its index. If its \<^verbatim>\<open>metadata\<close> is neither null nor a
  mapping, the message names the field \<^verbatim>\<open>metadata\<close> only. In each case validation of the
  list stops there.
\<close>

theorem rows_and_columns_first_violation:
  assumes "map_of t ''type'' = Some (PUnicode ty)"
    and "(rule = valid_rows \<and> field = ''rows'' \<and> fmt = ''ROW IDX %d MISSING '%s' FIELD'')
         \<or> (rule = valid_columns \<and> field = ''columns'' \<and> fmt = ''COL IDX %d MISSING '%s' FIELD'')"
    and "map_of t field = Some (PList (pre @ PDict d # post))"
    and "list_all axis_entry_ok pre"
  shows "(map_of d ''id'' = None \<longrightarrow>
            rule t = Inr (Msg fmt [AInt (int (length pre)), ALit ''id'']))
       \<and> (\<forall>i. map_of d ''id'' = Some i \<and> \<not> truthy i \<longrightarrow>
            rule t = Inr (Msg (apos @ ''id' in %s appears empty'') [AStr (PDict d)]))
       \<and> (\<forall>i. map_of d ''id'' = Some i \<and> truthy i \<and> map_of d ''metadata'' = None \<longrightarrow>
            rule t = Inr (Msg fmt [AInt (int (length pre)), ALit ''metadata'']))
       \<and> (\<forall>i m. map_of d ''id'' = Some i \<and> truthy i \<and> map_of d ''metadata'' = Some m
                  \<and> m \<noteq> PNone \<and> (\<forall>md. m \<noteq> PDict md) \<longrightarrow>
            rule t = Inr (Msg ''metadata is neither null or an object'' []))"
proof -
  have "rule t = entries_loop fmt entry_keys 0 (pre @ PDict d # post)"
    using assms(2) valid_entries_list [OF assms(1,3)]
    by (auto simp: valid_rows_def valid_columns_def)
  then show ?thesis
    using entries_loop_first_violation [OF assms(4), of d fmt post] by simp
qed

text \<open>
  C8, as stated, fails: an entry with an empty \<^verbatim>\<open>id\<close> produces the same message whether
  it stands at index 0 or at index 1, so the message does not identify the index.
\<close>

theorem empty_id_message_has_no_index_counterexample:
  "valid_rows (set_key ''rows''
      (PList [PDict [(''id'', PUnicode ''''), (''metadata'', PNone)], entry ''r2'']) example_table)
     = Inr (Msg (apos @ ''id' in %s appears empty'')
              [AStr (PDict [(''id'', PUnicode ''''), (''metadata'', PNone)])])
   \<and> valid_rows (set_key ''rows''
      (PList [entry ''r1'', PDict [(''id'', PUnicode ''''), (''metadata'', PNone)]]) example_table)
     = Inr (Msg (apos @ ''id' in %s appears empty'')
              [AStr (PDict [(''id'', PUnicode ''''), (''metadata'', PNone)])])"
  by (simp add: example_simps rule_simps prim_simps)

theorem rows_and_columns_first_violation_witness:
  "valid_rows (set_key ''rows'' (PList [entry ''r1'', PDict [(''metadata'', PNone)]]) example_table)
     = Inr (Msg ''ROW IDX %d MISSING '%s' FIELD'' [AInt 1, ALit ''id''])
   \<and> valid_columns (set_key ''columns''
        (PList [entry ''c1'', PDict [(''id'', PUnicode ''c2''), (''metadata'', PInt 3)]]) example_table)
     = Inr (Msg ''metadata is neither null or an object'' [])"
proof -
  let ?t1 = "set_key ''rows'' (PList [entry ''r1'', PDict [(''metadata'', PNone)]]) example_table"
  let ?t2 = "set_key ''columns''
        (PList [entry ''c1'', PDict [(''id'', PUnicode ''c2''), (''metadata'', PInt 3)]]) example_table"
  have ty: "map_of ?t1 ''type'' = Some (PUnicode ''OTU table'')"
    "map_of ?t2 ''type'' = Some (PUnicode ''OTU table'')"
    by (simp_all add: example_simps)
  have f1: "map_of ?t1 ''rows'' = Some (PList ([entry ''r1''] @ PDict [(''metadata'', PNone)] # []))"
    by (simp add: example_simps)
  have f2: "map_of ?t2 ''columns''
      = Some (PList ([entry ''c1''] @ PDict [(''id'', PUnicode ''c2''), (''metadata'', PInt 3)] # []))"
    by (simp add: example_simps)
  have ok: "list_all axis_entry_ok [entry ''r1'']" "list_all axis_entry_ok [entry ''c1'']"
    by (simp_all add: axis_entry_ok_def entry_def)
  show ?thesis
    using rows_and_columns_first_violation
        [of ?t1 "''OTU table''" valid_rows "''rows''" "''ROW IDX %d MISSING '%s' FIELD''"
            "[entry ''r1'']" "[(''metadata'', PNone)]" "[]", OF ty(1) _ f1 ok(1)]
      rows_and_columns_first_violation
        [of ?t2 "''OTU table''" valid_columns "''columns''" "''COL IDX %d MISSING '%s' FIELD''"
            "[entry ''c1'']" "[(''id'', PUnicode ''c2''), (''metadata'', PInt 3)]" "[]",
         OF ty(2) _ f2 ok(2)]
    by simp
qed

subsection \<open>One required item missing\<close>

lemma msg_len_pos_no_defect [simp]: "\<not> msg_len_pos no_defect"
  by (simp add: no_defect_def)

lemma json_keys_loop_all_pass:
  "list_all (\<lambda>(key, method). has_key t key \<and> method t = Inr no_defect) ks \<Longrightarrow>
   json_keys_loop False t ks r = Inr r"
  by (induction ks arbitrary: r) auto

lemma list_all_except:
  "k \<notin> set (map fst ks) \<Longrightarrow> list_all (\<lambda>(key, m). key = k \<or> P key m) ks \<Longrightarrow>
   list_all (\<lambda>(key, m). P key m) ks"
  by (induction ks) auto

lemma json_keys_loop_one_missing:
  assumes "distinct (map fst ks)" and "k \<in> set (map fst ks)" and "\<not> has_key t k"
    and "list_all (\<lambda>(key, method). key = k \<or> (has_key t key \<and> method t = Inr no_defect)) ks"
  shows "json_keys_loop False t ks r
         = Inr (append_line (invalid r) (Msg (''Missing field: '%s'' @ apos) [ALit k]))"
  using assms
proof (induction ks arbitrary: r)
  case Nil
  then show ?case by simp
next
  case (Cons km ks)
  obtain key meth where km: "km = (key, meth)" by (cases km)
  show ?case
  proof (cases "key = k")
    case True
    with Cons.prems km have "k \<notin> set (map fst ks)" by simp
    moreover from Cons.prems(4) km
    have "list_all (\<lambda>(key, method). key = k \<or> (has_key t key \<and> method t = Inr no_defect)) ks"
      by simp
    ultimately have "list_all (\<lambda>(key, method). has_key t key \<and> method t = Inr no_defect) ks"
      by (rule list_all_except)
    then show ?thesis using True km Cons.prems(3) by (simp add: json_keys_loop_all_pass)
  next
    case False
    with Cons.prems km have "has_key t key" "meth t = Inr no_defect" "k \<in> set (map fst ks)"
      "distinct (map fst ks)" "list_all (\<lambda>(key, method). key = k \<or> (has_key t key \<and> method t = Inr no_defect)) ks"
      by auto
    then show ?thesis using km Cons.IH [of r] Cons.prems(3) by simp
  qed
qed

lemma hdf5_attrs_loop_all_pass:
  "list_all (\<lambda>(key, method). has_key (attrs h) key \<and> method h = Inr no_defect) ks \<Longrightarrow>
   hdf5_attrs_loop False h ks r = Inr r"
  by (induction ks arbitrary: r) auto

lemma hdf5_attrs_loop_one_missing:
  assumes "distinct (map fst ks)" and "k \<in> set (map fst ks)" and "\<not> has_key (attrs h) k"
    and "list_all (\<lambda>(key, method). Some key = Some k \<or> (has_key (attrs h) key \<and> method h = Inr no_defect)) ks"
  shows "hdf5_attrs_loop False h ks r
         = Inr (append_line (invalid r) (Msg (''Missing attribute: '%s'' @ apos) [ALit k]))"
  using assms
proof (induction ks arbitrary: r)
  case Nil
  then show ?case by simp
next
  case (Cons km ks)
  obtain key meth where km: "km = (key, meth)" by (cases km)
  show ?case
  proof (cases "key = k")
    case True
    with Cons.prems km have "k \<notin> set (map fst ks)" by simp
    moreover from Cons.prems(4) km
    have "list_all (\<lambda>(key, method). key = k \<or> (has_key (attrs h) key \<and> method h = Inr no_defect)) ks"
      by simp
    ultimately have "list_all (\<lambda>(key, method). has_key (attrs h) key \<and> method h = Inr no_defect) ks"
      by (rule list_all_except)
    then show ?thesis using True km Cons.prems(3) by (simp add: hdf5_attrs_loop_all_pass)
  next
    case False
    with Cons.prems km have "has_key (attrs h) key" "meth h = Inr no_defect" "k \<in> set (map fst ks)"
      "distinct (map fst ks)"
      "list_all (\<lambda>(key, method). Some key = Some k \<or> (has_key (attrs h) key \<and> method h = Inr no_defect)) ks"
      by auto
    then show ?thesis using km Cons.IH [of r] Cons.prems(3) by simp
  qed
qed

lemma presence_loop_all_present:
  "list_all (h5_contains h) ps \<Longrightarrow> presence_loop dr h fmt ps r = r"
  by (induction ps arbitrary: r) auto

lemma presence_loop_one_missing:
  assumes "d \<in> set ps" and "\<not> h5_contains h d"
  shows "presence_loop False h fmt ps r = invalid r"
proof -
  have inv: "presence_loop False h fmt qs (invalid r) = invalid r" for qs
    by (induction qs) (simp_all add: invalid_def)
  show ?thesis using assms
  proof (induction ps arbitrary: r)
    case Nil
    then show ?case by simp
  next
    case (Cons p ps)
    show ?case
    proof (cases "h5_contains h p")
      case True
      with Cons show ?thesis by auto
    next
      case False
      have "presence_loop False h fmt ps (invalid r) = invalid r"
      proof (induction ps)
        case Nil
        then show ?case by simp
      next
        case (Cons q qs)
        then show ?case by (simp add: invalid_def)
      qed
      with False show ?thesis by simp
    qed
  qed
qed


lemma validate_json_one_missing:
  assumes k: "k \<in> set [''format'', ''format_url'', ''rows'', ''columns'', ''data'',
                         ''generated_by'', ''id'', ''date'']"
    and c: "json_conformant_except fv k t"
  shows "validate_json fv False t
         = Inr \<lparr>valid_table = False,
                report_lines = [Msg (''Missing field: '%s'' @ apos) [ALit k]]\<rparr>"
proof -
  from c have nk: "\<not> has_key t k"
    and all: "list_all (\<lambda>(key, method). key = k \<or> (has_key t key \<and> method t = Inr no_defect))
                (required_keys fv)"
    and rows: "len_differs t ''rows'' 0 = Inr False"
    and cols: "len_differs t ''columns'' 1 = Inr False"
    by (simp_all add: json_conformant_except_def)
  have d: "distinct (map fst (required_keys fv))"
    by (simp add: required_keys_def)
  from k have m: "k \<in> set (map fst (required_keys fv))"
    by (auto simp: required_keys_def)
  have loop: "json_keys_loop False t (required_keys fv) \<lparr>valid_table = True, report_lines = []\<rparr>
      = Inr (append_line (invalid \<lparr>valid_table = True, report_lines = []\<rparr>)
               (Msg (''Missing field: '%s'' @ apos) [ALit k]))"
    by (rule json_keys_loop_one_missing [OF d m nk all])
  from k have "k \<noteq> ''shape''" by auto
  with all have sh: "has_key t ''shape''"
    by (auto simp: required_keys_def)
  from cols have cols': "len_differs t ''columns'' (Suc 0) = Inr False" by simp
  show ?thesis
    by (simp add: validate_json_def loop sh rows cols' append_line_def invalid_def Let_def)
qed

lemma h5_len_Inr_not_None: "h5_len x = Inr a \<Longrightarrow> (x = None) = False"
  by (cases x) simp_all

lemma ids_match_shapeD:
  assumes "ids_match_shape h" and "has_key (attrs h) ''shape''"
  obtains shape n_obs n_samp a b where "getitem (attrs h) ''shape'' = Inr shape"
    "py_unpack2 shape = Inr (n_obs, n_samp)"
    "h5_len (h5_get h ''observation/ids'') = Inr a" "h5_len (h5_get h ''sample/ids'') = Inr b"
    "\<not> ne_int (int a) n_obs" "\<not> ne_int (int b) n_samp"
proof -
  from assms(2) obtain shape where 1: "map_of (attrs h) ''shape'' = Some shape"
    by (auto simp: has_key_def)
  from assms(1) 1 obtain n_obs n_samp where 2: "py_unpack2 shape = Inr (n_obs, n_samp)"
    by (cases "py_unpack2 shape") (auto simp: ids_match_shape_def)
  from assms(1) 1 2 obtain a where 3: "h5_len (h5_get h ''observation/ids'') = Inr a"
    "\<not> ne_int (int a) n_obs"
    by (cases "h5_len (h5_get h ''observation/ids'')") (auto simp: ids_match_shape_def)
  from assms(1) 1 2 obtain b where 4: "h5_len (h5_get h ''sample/ids'') = Inr b"
    "\<not> ne_int (int b) n_samp"
    by (cases "h5_len (h5_get h ''sample/ids'')") (auto simp: ids_match_shape_def)
  from 1 have g: "getitem (attrs h) ''shape'' = Inr shape" by (simp add: getitem_def)
  show thesis by (rule that [OF g 2 3(1) 4(1) 3(2) 4(2)])
qed

lemma validate_hdf5_unfold:
  assumes "hdf5_attrs_loop False h required_attrs \<lparr>valid_table = True, report_lines = []\<rparr> = Inr r2"
    and "presence_loop False h ''Missing dataset: %s'' required_datasets
           (presence_loop False h ''Missing group: %s'' required_groups r2) = r4"
    and "ids_match_shape h"
  shows "validate_hdf5 False h = Inr r4"
proof (cases "has_key (attrs h) ''shape''")
  case True
  from assms(3) True obtain shape n_obs n_samp a b where f:
    "getitem (attrs h) ''shape'' = Inr shape"
    "py_unpack2 shape = Inr (n_obs, n_samp)"
    "h5_len (h5_get h ''observation/ids'') = Inr a" "h5_len (h5_get h ''sample/ids'') = Inr b"
    "\<not> ne_int (int a) n_obs" "\<not> ne_int (int b) n_samp"
    by (rule ids_match_shapeD)
  from f(3) obtain obs_ids where o: "h5_get h ''observation/ids'' = Some obs_ids"
    by (cases "h5_get h ''observation/ids''") auto
  from f(4) obtain samp_ids where s: "h5_get h ''sample/ids'' = Some samp_ids"
    by (cases "h5_get h ''sample/ids''") auto
  from f(3,4) o s have l: "h5_len (Some obs_ids) = Inr a" "h5_len (Some samp_ids) = Inr b"
    by simp_all
  show ?thesis
    using assms(1,2) True f(1,2,5,6) o s l by (simp add: validate_hdf5_def Let_def)
next
  case False
  then show ?thesis using assms(1,2) by (simp add: validate_hdf5_def Let_def)
qed

lemma validate_hdf5_attr_missing:
  assumes k: "k \<in> set (map fst required_attrs)"
    and nk: "\<not> has_key (attrs h) k"
    and a: "attrs_conformant_except (Some k) h"
    and p: "paths_present_except None h"
    and i: "ids_match_shape h"
  shows "validate_hdf5 False h
         = Inr \<lparr>valid_table = False,
                report_lines = [Msg (''Missing attribute: '%s'' @ apos) [ALit k]]\<rparr>"
proof -
  have d: "distinct (map fst required_attrs)"
    by (simp add: required_attrs_def)
  have loop: "hdf5_attrs_loop False h required_attrs \<lparr>valid_table = True, report_lines = []\<rparr>
      = Inr (append_line (invalid \<lparr>valid_table = True, report_lines = []\<rparr>)
               (Msg (''Missing attribute: '%s'' @ apos) [ALit k]))"
    using a by (intro hdf5_attrs_loop_one_missing [OF d k nk]) (simp add: attrs_conformant_except_def)
  from p have g: "list_all (h5_contains h) required_groups"
    and ds: "list_all (h5_contains h) required_datasets"
    by (simp_all add: paths_present_except_def)
  show ?thesis
    using validate_hdf5_unfold [OF loop _ i]
    by (simp add: presence_loop_all_present [OF g] presence_loop_all_present [OF ds]
        append_line_def invalid_def)
qed

lemma validate_hdf5_dataset_missing:
  assumes d: "d \<in> set required_datasets"
    and nd: "\<not> h5_contains h d"
    and a: "attrs_conformant_except None h"
    and p: "paths_present_except (Some d) h"
    and i: "ids_match_shape h"
  shows "validate_hdf5 False h = Inr \<lparr>valid_table = False, report_lines = []\<rparr>"
proof -
  from a have "list_all (\<lambda>(key, method). has_key (attrs h) key \<and> method h = Inr no_defect) required_attrs"
    by (simp add: attrs_conformant_except_def)
  then have loop: "hdf5_attrs_loop False h required_attrs \<lparr>valid_table = True, report_lines = []\<rparr>
      = Inr \<lparr>valid_table = True, report_lines = []\<rparr>"
    by (rule hdf5_attrs_loop_all_pass)
  from d have "d \<notin> set required_groups"
    by (auto simp: required_datasets_def required_groups_def)
  with p have g: "list_all (h5_contains h) required_groups"
    by (auto simp: paths_present_except_def list_all_iff)
  show ?thesis
    using validate_hdf5_unfold [OF loop _ i]
    by (simp add: presence_loop_all_present [OF g] presence_loop_one_missing [OF d nd] invalid_def)
qed

text \<open>
  C1, amended, with narrative mode disabled. A flat document that lacks exactly one of the
  keys \<^verbatim>\<open>format\<close>, \<^verbatim>\<open>format_url\<close>, \<^verbatim>\<open>rows\<close>, \<^verbatim>\<open>columns\<close>, \<^verbatim>\<open>data\<close>, \<^verbatim>\<open>generated_by\<close>, \<^verbatim>\<open>id\<close>,
  \<^verbatim>\<open>date\<close>, all else conformant, gets the verdict false and a report of exactly one line,
  \<^verbatim>\<open>Missing field\<close> with that key. A hierarchical document that lacks exactly one of the
  eight required attributes gets the verdict false and exactly the line
  \<^verbatim>\<open>Missing attribute\<close> with that attribute. A hierarchical document that lacks exactly
  one required dataset other than the two ids datasets gets the verdict false and an
  empty report: the line that names the dataset is written in narrative mode only.
\<close>

theorem one_missing_field_or_attribute:
  "(k \<in> set [''format'', ''format_url'', ''rows'', ''columns'', ''data'',
              ''generated_by'', ''id'', ''date'']
      \<and> json_conformant_except fv k t \<longrightarrow>
    validate_json fv False t
      = Inr \<lparr>valid_table = False,
             report_lines = [Msg (''Missing field: '%s'' @ apos) [ALit k]]\<rparr>)
   \<and> (a \<in> set (map fst required_attrs) \<and> \<not> has_key (attrs h) a
        \<and> attrs_conformant_except (Some a) h \<and> paths_present_except None h
        \<and> ids_match_shape h \<longrightarrow>
      validate_hdf5 False h
        = Inr \<lparr>valid_table = False,
               report_lines = [Msg (''Missing attribute: '%s'' @ apos) [ALit a]]\<rparr>)
   \<and> (d \<in> set required_datasets \<and> d \<noteq> ''observation/ids'' \<and> d \<noteq> ''sample/ids''
        \<and> \<not> h5_contains h' d
        \<and> attrs_conformant_except None h' \<and> paths_present_except (Some d) h'
        \<and> ids_match_shape h' \<longrightarrow>
      validate_hdf5 False h' = Inr \<lparr>valid_table = False, report_lines = []\<rparr>)"
  using validate_json_one_missing [of k fv t] validate_hdf5_attr_missing [of a h]
    validate_hdf5_dataset_missing [of d h']
  by blast

text \<open>
  C1, as stated, fails. The hierarchical example validates; without the dataset
  \<^verbatim>\<open>observation/data\<close> the verdict is false and the report has no line at all. The flat
  example validates; without the key \<^verbatim>\<open>type\<close> the run raises \<^verbatim>\<open>KeyError\<close> in the rows rule
  and returns no report.
\<close>

theorem missing_dataset_or_type_counterexample:
  "validate_hdf5 False example_hdf5 = Inr \<lparr>valid_table = True, report_lines = []\<rparr>
   \<and> validate_hdf5 False (del_dataset ''observation'' ''data'' example_hdf5)
       = Inr \<lparr>valid_table = False, report_lines = []\<rparr>
   \<and> validate_json ''1.0.0'' False example_table = Inr \<lparr>valid_table = True, report_lines = []\<rparr>
   \<and> validate_json ''1.0.0'' False (del_key ''type'' example_table) = Inl KeyError"
proof -
  have "validate_hdf5 False (del_dataset ''observation'' ''data'' example_hdf5)
       = Inr \<lparr>valid_table = False, report_lines = []\<rparr>"
    by (simp add: example_simps rule_simps hdf5_rule_simps prim_simps hdf5_driver_simps
        check_date_examples_pass)
  moreover have "validate_json ''1.0.0'' False (del_key ''type'' example_table) = Inl KeyError"
    by (simp add: example_simps rule_simps prim_simps driver_simps check_date_examples_pass)
  ultimately show ?thesis
    by (simp add: example_table_valid example_hdf5_valid)
qed

theorem one_missing_field_or_attribute_witness:
  "validate_json ''1.0.0'' False (del_key ''date'' example_table)
     = Inr \<lparr>valid_table = False,
            report_lines = [Msg (''Missing field: '%s'' @ apos) [ALit ''date'']]\<rparr>
   \<and> validate_hdf5 False (del_attr ''nnz'' example_hdf5)
     = Inr \<lparr>valid_table = False,
            report_lines = [Msg (''Missing attribute: '%s'' @ apos) [ALit ''nnz'']]\<rparr>
   \<and> validate_hdf5 False (del_dataset ''observation'' ''data'' example_hdf5)
     = Inr \<lparr>valid_table = False, report_lines = []\<rparr>"
proof -
  have j: "json_conformant_except ''1.0.0'' ''date'' (del_key ''date'' example_table)"
    by (simp add: json_conformant_except_def example_simps rule_simps prim_simps
        required_keys_def len_differs_def)
  have a: "\<not> has_key (attrs (del_attr ''nnz'' example_hdf5)) ''nnz''"
    "attrs_conformant_except (Some ''nnz'') (del_attr ''nnz'' example_hdf5)"
    by (simp_all add: attrs_conformant_except_def example_simps rule_simps hdf5_rule_simps
        prim_simps required_attrs_def check_date_examples_pass)
  have p: "paths_present_except None (del_attr ''nnz'' example_hdf5)"
    by (simp add: paths_present_except_def example_simps required_groups_def
        required_datasets_def h5_contains_def h5_get_def)
  have i: "ids_match_shape (del_attr ''nnz'' example_hdf5)"
    by (simp add: ids_match_shape_def example_simps py_unpack2_def h5_get_def)
  have d: "\<not> h5_contains (del_dataset ''observation'' ''data'' example_hdf5) ''observation/data''"
    "attrs_conformant_except None (del_dataset ''observation'' ''data'' example_hdf5)"
    by (simp_all add: attrs_conformant_except_def example_simps rule_simps hdf5_rule_simps
        prim_simps required_attrs_def check_date_examples_pass h5_contains_def h5_get_def)
  have p': "paths_present_except (Some ''observation/data'')
              (del_dataset ''observation'' ''data'' example_hdf5)"
    by (simp add: paths_present_except_def example_simps required_groups_def
        required_datasets_def h5_contains_def h5_get_def)
  have i': "ids_match_shape (del_dataset ''observation'' ''data'' example_hdf5)"
    by (simp add: ids_match_shape_def example_simps py_unpack2_def h5_get_def)
  have m: "''nnz'' \<in> set (map fst required_attrs)"
    "''observation/data'' \<in> set required_datasets"
    by (simp_all add: required_attrs_def required_datasets_def)
  show ?thesis
    using one_missing_field_or_attribute
      [of "''date''" "''1.0.0''" "del_key ''date'' example_table"
          "''nnz''" "del_attr ''nnz'' example_hdf5"
          "''observation/data''" "del_dataset ''observation'' ''data'' example_hdf5"]
      j a p i d p' i' m
    by simp
qed

subsection \<open>Exceptions on invalid content\<close>

text \<open>
  C2 does not hold of the code. With the dataset \<^verbatim>\<open>observation/ids\<close> absent, the shape
  cross-check of the hierarchical driver appends its line and then takes \<^verbatim>\<open>len(None)\<close>:
  the run raises \<^verbatim>\<open>TypeError\<close>. In the flat encoding a \<^verbatim>\<open>type\<close> that is not text raises
  \<^verbatim>\<open>AttributeError\<close>, a \<^verbatim>\<open>shape\<close> that is not a pair raises \<^verbatim>\<open>ValueError\<close>, and an empty dense
  row under a declared width of zero raises \<^verbatim>\<open>TypeError\<close>; in each case the run returns no
  report.
\<close>

theorem validation_raises_on_invalid_content:
  "validate_hdf5 False (del_dataset ''observation'' ''ids'' example_hdf5) = Inl TypeError
   \<and> valid_type (Json (set_key ''type'' (PInt 5) example_table)) = Inl AttributeError
   \<and> validate_json ''1.0.0'' False (set_key ''type'' (PInt 5) example_table) = Inl AttributeError
   \<and> valid_shape (Json (set_key ''shape'' (PList [PInt 2]) example_table)) = Inl ValueError
   \<and> validate_json ''1.0.0'' False (set_key ''shape'' (PList [PInt 2]) example_table)
       = Inl ValueError
   \<and> valid_dense_data (set_key ''matrix_type'' (PUnicode ''dense'')
        (set_key ''shape'' (PList [PInt 1, PInt 0]) (set_key ''data'' (PList [PList []])
           example_table))) = Inl TypeError
   \<and> validate_json ''1.0.0'' False (set_key ''matrix_type'' (PUnicode ''dense'')
        (set_key ''shape'' (PList [PInt 1, PInt 0]) (set_key ''data'' (PList [PList []])
           example_table))) = Inl TypeError"
proof -
  have 1: "validate_hdf5 False (del_dataset ''observation'' ''ids'' example_hdf5) = Inl TypeError"
    by (simp add: example_simps rule_simps hdf5_rule_simps prim_simps hdf5_driver_simps
        check_date_examples_pass)
  have 2: "valid_type (Json (set_key ''type'' (PInt 5) example_table)) = Inl AttributeError"
    "valid_shape (Json (set_key ''shape'' (PList [PInt 2]) example_table)) = Inl ValueError"
    "valid_dense_data (set_key ''matrix_type'' (PUnicode ''dense'')
        (set_key ''shape'' (PList [PInt 1, PInt 0]) (set_key ''data'' (PList [PList []])
           example_table))) = Inl TypeError"
    by (simp_all add: example_simps rule_simps prim_simps)
  have 3: "validate_json ''1.0.0'' False (set_key ''type'' (PInt 5) example_table) = Inl AttributeError"
    by (simp add: example_simps rule_simps prim_simps driver_simps)
  have 4: "validate_json ''1.0.0'' False (set_key ''shape'' (PList [PInt 2]) example_table)
       = Inl ValueError"
    by (simp add: example_simps rule_simps prim_simps driver_simps)
  have 5: "validate_json ''1.0.0'' False (set_key ''matrix_type'' (PUnicode ''dense'')
        (set_key ''shape'' (PList [PInt 1, PInt 0]) (set_key ''data'' (PList [PList []])
           example_table))) = Inl TypeError"
    by (simp add: example_simps rule_simps prim_simps driver_simps)
  from 1 2 3 4 5 show ?thesis by simp
qed

end
